theory Spec2Isabelle
  imports Complex_Main
begin

section \<open>JSON values\<close>

text \<open>
  Both services exchange JSON. A JSON object is an association list that holds each key
  once (both decoders keep the last occurrence of a repeated key); a field is read with
  \<open>map_of\<close>, and \<open>None\<close> is Go's failed type assertion or JavaScript's \<open>undefined\<close>.
\<close>

datatype json =
    JNull
  | JBool bool
  | JNumber real
  | JString string
  | JArray "json list"
  | JObject "(string \<times> json) list"

section \<open>The Bedrock service: model registry and fallback invocation\<close>

subsection \<open>Data\<close>

record ModelInfo =
  ID :: string
  Name :: string
  Available :: bool
  MessageAPI :: bool

record GenerateRequest =
  Prompt :: string
  MaxTokens :: int
  Temperature :: real
  Model :: string

text \<open>
  The library calls the service makes, as functions of their arguments: \<open>strings.ToLower\<close>,
  \<open>json.Marshal\<close>, the remote \<open>InvokeModel\<close> (model id and body bytes to an error text or
  the response bytes) and \<open>json.Unmarshal\<close> into a \<open>map[string]interface{}\<close>. A Go
  \<open>error\<close> is carried as its message text; \<open>Inl\<close> is the non-nil error.
\<close>

record sdk =
  ToLower :: "string \<Rightarrow> string"
  Marshal :: "json \<Rightarrow> string + string"
  InvokeModel :: "string \<Rightarrow> string \<Rightarrow> string + string"
  Unmarshal :: "string \<Rightarrow> string + (string \<times> json) list"

text \<open>
  The client: the catalogue with its availability flags, and the remote client, whose
  observable state is the sequence of \<open>InvokeModel\<close> calls (model id, body) issued so far.
\<close>

record BedrockClient =
  availableModels :: "ModelInfo list"
  client :: "(string \<times> string) list"

subsection \<open>Substring test\<close>

fun HasPrefix :: "string \<Rightarrow> string \<Rightarrow> bool" where
  "HasPrefix s [] = True"
| "HasPrefix [] (p # ps) = False"
| "HasPrefix (c # s) (p # ps) = (c = p \<and> HasPrefix s ps)"

fun Contains :: "string \<Rightarrow> string \<Rightarrow> bool" where
  "Contains [] substr = (substr = [])"
| "Contains (c # s) substr = (HasPrefix (c # s) substr \<or> Contains s substr)"

subsection \<open>Candidate selection in GenerateText\<close>

definition matchesPreferred :: "sdk \<Rightarrow> string \<Rightarrow> ModelInfo \<Rightarrow> bool" where
  "matchesPreferred lib preferredModel model \<longleftrightarrow>
     Available model \<and>
     (Contains (ToLower lib (Name model)) (ToLower lib preferredModel) \<or>
      Contains (ToLower lib (ID model)) (ToLower lib preferredModel))"

text \<open>The first loop: append the first match and break.\<close>

fun findPreferred :: "sdk \<Rightarrow> string \<Rightarrow> ModelInfo list \<Rightarrow> ModelInfo list" where
  "findPreferred lib preferredModel [] = []"
| "findPreferred lib preferredModel (model # rest) =
     (if matchesPreferred lib preferredModel model then [model]
      else findPreferred lib preferredModel rest)"

text \<open>
  The second loop: every available model whose ID is not yet in \<open>modelsToTry\<close> is
  appended.
\<close>

fun addFallback :: "ModelInfo list \<Rightarrow> ModelInfo list \<Rightarrow> ModelInfo list" where
  "addFallback [] modelsToTry = modelsToTry"
| "addFallback (model # rest) modelsToTry =
     addFallback rest
       (if Available model \<and> \<not> list_ex (\<lambda>existing. ID existing = ID model) modelsToTry
        then modelsToTry @ [model] else modelsToTry)"

definition modelsToTry :: "sdk \<Rightarrow> ModelInfo list \<Rightarrow> string \<Rightarrow> ModelInfo list" where
  "modelsToTry lib models preferredModel =
     addFallback models
       (if preferredModel \<noteq> [] then findPreferred lib preferredModel models else [])"

text \<open>
  The ordering as the specification words it: a case-insensitive substring match on id or
  display name among the available descriptors, first match first, then the remaining
  available descriptors in catalogue order.
\<close>

definition spec_matches :: "sdk \<Rightarrow> string \<Rightarrow> ModelInfo \<Rightarrow> bool" where
  "spec_matches lib preferredModel d \<longleftrightarrow>
     Available d \<and>
     (Contains (ToLower lib (ID d)) (ToLower lib preferredModel) \<or>
      Contains (ToLower lib (Name d)) (ToLower lib preferredModel))"

definition spec_candidates :: "sdk \<Rightarrow> ModelInfo list \<Rightarrow> string \<Rightarrow> ModelInfo list" where
  "spec_candidates lib catalogue preferredModel =
     (case (if preferredModel = [] then None
            else find (spec_matches lib preferredModel) catalogue) of
        None \<Rightarrow> filter Available catalogue
      | Some p \<Rightarrow> p # filter (\<lambda>d. Available d \<and> d \<noteq> p) catalogue)"

subsection \<open>Request formatting\<close>

definition systemPrompt :: string where
  "systemPrompt =
     ''You are a helpful AI assistant with access to conversation history and uploaded files. '' @
     ''When responding, consider the full context provided, including previous conversations and any file content. '' @
     ''If file content is mentioned in the context, analyze and reference it appropriately in your response. '' @
     ''Be conversational, helpful, and maintain continuity with previous interactions.''"

definition enhancedPrompt :: "string \<Rightarrow> string" where
  "enhancedPrompt prompt =
     [CHR 0x0A, CHR 0x0A] @
     ''Human: You are a helpful AI assistant with conversation memory and file analysis capabilities. Please provide thoughtful, contextual responses based on the information provided.'' @
     [CHR 0x0A, CHR 0x0A] @ prompt @ [CHR 0x0A, CHR 0x0A] @ ''Assistant:''"

definition requestBody :: "ModelInfo \<Rightarrow> string \<Rightarrow> int \<Rightarrow> real \<Rightarrow> json" where
  "requestBody model prompt maxTokens temperature =
     (if MessageAPI model then
        JObject [(''anthropic_version'', JString ''bedrock-2023-05-31''),
                 (''max_tokens'', JNumber (of_int maxTokens)),
                 (''system'', JString systemPrompt),
                 (''messages'', JArray [JObject [(''role'', JString ''user''),
                                                 (''content'', JString prompt)]]),
                 (''temperature'', JNumber temperature)]
      else
        JObject [(''prompt'', JString (enhancedPrompt prompt)),
                 (''max_tokens_to_sample'', JNumber (of_int maxTokens)),
                 (''temperature'', JNumber temperature)])"

subsection \<open>Response parsing\<close>

text \<open>
  The chain of type assertions of GenerateText: for a message-API model, \<open>content\<close> is
  a non-empty array whose first element is an object with a string \<open>text\<close>; for a legacy
  model, \<open>completion\<close> is a string. \<open>None\<close> is the fall-through to the
  "unexpected response format" error.
\<close>

definition extractText :: "bool \<Rightarrow> (string \<times> json) list \<Rightarrow> string option" where
  "extractText messageAPI response =
     (if messageAPI then
        (case map_of response ''content'' of
           Some (JArray (firstContent # rest)) \<Rightarrow>
             (case firstContent of
                JObject firstFields \<Rightarrow>
                  (case map_of firstFields ''text'' of
                     Some (JString text) \<Rightarrow> Some text
                   | _ \<Rightarrow> None)
              | _ \<Rightarrow> None)
         | _ \<Rightarrow> None)
      else
        (case map_of response ''completion'' of
           Some (JString completion) \<Rightarrow> Some completion
         | _ \<Rightarrow> None))"

subsection \<open>The fallback loop of GenerateText\<close>

text \<open>
  One iteration of the loop over \<open>modelsToTry\<close>: \<open>Inr\<close> is the text returned on
  success, \<open>Inl\<close> the value assigned to \<open>lastError\<close> before \<open>continue\<close>.
\<close>

definition tryModel ::
  "sdk \<Rightarrow> string \<Rightarrow> int \<Rightarrow> real \<Rightarrow> ModelInfo \<Rightarrow> BedrockClient
     \<Rightarrow> (string + string) \<times> BedrockClient" where
  "tryModel lib prompt maxTokens temperature model bc =
     (case Marshal lib (requestBody model prompt maxTokens temperature) of
        Inl err \<Rightarrow> (Inl (''error marshaling request: '' @ err), bc)
      | Inr bodyBytes \<Rightarrow>
          (let bc' = bc\<lparr>client := client bc @ [(ID model, bodyBytes)]\<rparr> in
           case InvokeModel lib (ID model) bodyBytes of
             Inl err \<Rightarrow> (Inl err, bc')
           | Inr respBody \<Rightarrow>
               (case Unmarshal lib respBody of
                  Inl err \<Rightarrow> (Inl (''error parsing response: '' @ err), bc')
                | Inr response \<Rightarrow>
                    (case extractText (MessageAPI model) response of
                       Some text \<Rightarrow> (Inr text, bc')
                     | None \<Rightarrow>
                         (Inl (''unexpected response format from model '' @ Name model),
                          bc')))))"

text \<open>
  The loop; its result is Go's \<open>(string, string, error)\<close>: \<open>Inr (text, name)\<close> with a
  nil error, \<open>Inl\<close> the error's message. \<open>%v\<close> prints a nil error as \<open><nil>\<close>.
\<close>

fun tryModels ::
  "sdk \<Rightarrow> string \<Rightarrow> int \<Rightarrow> real \<Rightarrow> ModelInfo list \<Rightarrow> string option \<Rightarrow> BedrockClient
     \<Rightarrow> (string + string \<times> string) \<times> BedrockClient" where
  "tryModels lib prompt maxTokens temperature [] lastError bc =
     (Inl (''all available models failed. Last error: '' @
           (case lastError of None \<Rightarrow> ''<nil>'' | Some e \<Rightarrow> e)), bc)"
| "tryModels lib prompt maxTokens temperature (model # rest) lastError bc =
     (case tryModel lib prompt maxTokens temperature model bc of
        (Inr text, bc') \<Rightarrow> (Inr (text, Name model), bc')
      | (Inl e, bc') \<Rightarrow> tryModels lib prompt maxTokens temperature rest (Some e) bc')"

definition GenerateText ::
  "sdk \<Rightarrow> string \<Rightarrow> string \<Rightarrow> int \<Rightarrow> real \<Rightarrow> BedrockClient
     \<Rightarrow> (string + string \<times> string) \<times> BedrockClient" where
  "GenerateText lib prompt preferredModel maxTokens temperature bc =
     (let maxTokens' = (if maxTokens = 0 then 2000 else maxTokens);
          temperature' = (if temperature = 0 then 7 / 10 else temperature);
          candidates = modelsToTry lib (availableModels bc) preferredModel
      in if candidates = [] then (Inl ''no available models found'', bc)
         else tryModels lib prompt maxTokens' temperature' candidates None bc)"

subsection \<open>The availability probe\<close>

definition probeBody :: "ModelInfo \<Rightarrow> json" where
  "probeBody model =
     (if MessageAPI model then
        JObject [(''anthropic_version'', JString ''bedrock-2023-05-31''),
                 (''max_tokens'', JNumber 10),
                 (''messages'', JArray [JObject [(''role'', JString ''user''),
                                                 (''content'', JString ''Hello'')]])]
      else
        JObject [(''prompt'', JString ([CHR 0x0A, CHR 0x0A] @ ''Human: Hello'' @
                                       [CHR 0x0A, CHR 0x0A] @ ''Assistant:'')),
                 (''max_tokens_to_sample'', JNumber 10)])"

text \<open>The marshalling error is discarded by the probe; the body is then empty.\<close>

definition probeBytes :: "sdk \<Rightarrow> ModelInfo \<Rightarrow> string" where
  "probeBytes lib model = (case Marshal lib (probeBody model) of Inl err \<Rightarrow> [] | Inr b \<Rightarrow> b)"

fun probeEach ::
  "sdk \<Rightarrow> ModelInfo list \<Rightarrow> (string \<times> string) list
     \<Rightarrow> ModelInfo list \<times> (string \<times> string) list" where
  "probeEach lib [] calls = ([], calls)"
| "probeEach lib (model # rest) calls =
     (let bodyBytes = probeBytes lib model;
          model' = (case InvokeModel lib (ID model) bodyBytes of
                      Inl err \<Rightarrow> model\<lparr>Available := False\<rparr>
                    | Inr resp \<Rightarrow> model\<lparr>Available := True\<rparr>);
          (rest', calls') = probeEach lib rest (calls @ [(ID model, bodyBytes)])
      in (model' # rest', calls'))"

definition TestModelAvailability :: "sdk \<Rightarrow> BedrockClient \<Rightarrow> BedrockClient" where
  "TestModelAvailability lib bc =
     (let (models, calls) = probeEach lib (availableModels bc) (client bc)
      in bc\<lparr>availableModels := models, client := calls\<rparr>)"

subsection \<open>HTTP handler and start-up\<close>

datatype http_body = Text string | Json "(string \<times> json) list"

record http_response =
  resp_status :: nat
  resp_body :: http_body

text \<open>\<open>http.Error\<close> writes the message and a newline.\<close>

definition http_Error :: "string \<Rightarrow> nat \<Rightarrow> http_response" where
  "http_Error msg code = \<lparr>resp_status = code, resp_body = Text (msg @ [CHR 0x0A])\<rparr>"

text \<open>
  The handler; \<open>None\<close> is a request body that does not decode into a GenerateRequest.
  \<open>token_count\<close> is never set and is omitted from the encoding.
\<close>

definition generateHandler ::
  "sdk \<Rightarrow> GenerateRequest option \<Rightarrow> BedrockClient \<Rightarrow> http_response \<times> BedrockClient" where
  "generateHandler lib decoded bc =
     (case decoded of
        None \<Rightarrow> (http_Error ''Invalid request body'' 400, bc)
      | Some req \<Rightarrow>
          if Prompt req = [] then (http_Error ''Prompt is required'' 400, bc)
          else
            (case GenerateText lib (Prompt req) (Model req) (MaxTokens req) (Temperature req) bc of
               (Inl err, bc') \<Rightarrow>
                 (http_Error (''Error generating response: '' @ err) 500, bc')
             | (Inr (response, modelUsed), bc') \<Rightarrow>
                 (\<lparr>resp_status = 200,
                   resp_body = Json [(''response'', JString response),
                                (''model_used'', JString modelUsed)]\<rparr>, bc')))"

text \<open>A catalogue literal; \<open>Available\<close> starts as Go's zero value.\<close>

definition mk_ModelInfo :: "string \<Rightarrow> string \<Rightarrow> bool \<Rightarrow> ModelInfo" where
  "mk_ModelInfo i n api = \<lparr>ID = i, Name = n, Available = False, MessageAPI = api\<rparr>"

definition catalogue :: "ModelInfo list" where
  "catalogue =
     [mk_ModelInfo ''anthropic.claude-3-5-sonnet-20241022-v2:0'' ''Claude 3.5 Sonnet v2'' True,
      mk_ModelInfo ''anthropic.claude-3-5-sonnet-20240620-v1:0'' ''Claude 3.5 Sonnet'' True,
      mk_ModelInfo ''anthropic.claude-3-5-haiku-20241022-v1:0'' ''Claude 3.5 Haiku'' True,
      mk_ModelInfo ''anthropic.claude-3-sonnet-20240229-v1:0'' ''Claude 3 Sonnet'' True,
      mk_ModelInfo ''anthropic.claude-3-haiku-20240307-v1:0'' ''Claude 3 Haiku'' True,
      mk_ModelInfo ''anthropic.claude-3-opus-20240229-v1:0'' ''Claude 3 Opus'' True,
      mk_ModelInfo ''anthropic.claude-v2:1'' ''Claude v2.1'' False,
      mk_ModelInfo ''anthropic.claude-v2'' ''Claude v2'' False,
      mk_ModelInfo ''anthropic.claude-instant-v1'' ''Claude Instant'' False]"

text \<open>
  NewBedrockClient, given what \<open>config.LoadDefaultConfig\<close> returned (\<open>Inl\<close> its error).
  The region defaults to us-east-1 and the credentials are the static pair read from the
  environment, so the function fails only when the SDK's loader does.
\<close>

definition NewBedrockClient :: "string + unit \<Rightarrow> string + BedrockClient" where
  "NewBedrockClient loaded =
     (case loaded of
        Inl err \<Rightarrow> Inl (''unable to load SDK config: '' @ err)
      | Inr cfg \<Rightarrow> Inr \<lparr>availableModels = catalogue, client = []\<rparr>)"

text \<open>
  A process either has exited with a fatal log line, or serves requests with the client
  it holds; of its log, the lines written about a failed initialisation are kept.
\<close>

datatype 'c process = Exited string | Serving "string list" 'c

text \<open>\<open>main\<close> of the enhanced service, up to the start of the HTTP server.\<close>

definition main :: "sdk \<Rightarrow> string + unit \<Rightarrow> BedrockClient process" where
  "main lib loaded =
     (case NewBedrockClient loaded of
        Inl err \<Rightarrow> Exited (''Failed to initialize Bedrock client: '' @ err)
      | Inr bc \<Rightarrow> Serving [] (TestModelAvailability lib bc))"

text \<open>
  \<open>main\<close> of the basic service (bedrock-service/main.go): its client has no catalogue,
  and a failed initialisation leaves the handler with a nil client.
\<close>

definition NewBedrockClient_basic :: "string + unit \<Rightarrow> string + unit" where
  "NewBedrockClient_basic loaded =
     (case loaded of
        Inl err \<Rightarrow> Inl (''unable to load SDK config: '' @ err)
      | Inr cfg \<Rightarrow> Inr ())"

definition main_basic :: "string + unit \<Rightarrow> unit option process" where
  "main_basic loaded =
     (case NewBedrockClient_basic loaded of
        Inl err \<Rightarrow>
          Serving [''Warning: Bedrock client initialization failed: '' @ err,
                   ''Service will run but Bedrock calls will fail''] None
      | Inr bc \<Rightarrow> Serving [] (Some bc))"

section \<open>The cache service: memoization in front of the Bedrock service\<close>

subsection \<open>JavaScript truthiness of a JSON value\<close>

fun truthy :: "json \<Rightarrow> bool" where
  "truthy JNull = False"
| "truthy (JBool b) = b"
| "truthy (JNumber x) = (x \<noteq> 0)"
| "truthy (JString s) = (s \<noteq> [])"
| "truthy (JArray xs) = True"
| "truthy (JObject kv) = True"

text \<open>A property that may be \<open>undefined\<close>, which is falsy.\<close>

definition truthy_opt :: "json option \<Rightarrow> bool" where
  "truthy_opt v = (case v of None \<Rightarrow> False | Some j \<Rightarrow> truthy j)"

subsection \<open>The backing store\<close>

datatype js_error = StoreError | TypeError

text \<open>
  Modelled from the spec: the state of the key-value backing store (the Redis server
  behind \<open>redisClient\<close>; only the calls to it are in the repository). A cache entry is
  a value with the time at which it expires; the store is reached over a connection that
  may be unavailable.
\<close>

record redis =
  entries :: "string \<rightharpoonup> string \<times> nat"
  reachable :: bool

text \<open>
  Modelled from the spec: \<open>get(key)\<close> of the backing store, which returns the cached
  value if present and not expired and otherwise signals a miss. On an unreachable store
  the command's promise is rejected.
\<close>

definition redis_get :: "nat \<Rightarrow> string \<Rightarrow> redis \<Rightarrow> js_error + string option" where
  "redis_get now key r =
     (if \<not> reachable r then Inl StoreError
      else case entries r key of
             None \<Rightarrow> Inr None
           | Some (v, expiresAt) \<Rightarrow> if now < expiresAt then Inr (Some v) else Inr None)"

text \<open>
  Modelled from the spec: \<open>setWithTTL(key, value, seconds)\<close> of the backing store, which
  stores the value, overwriting any prior entry for the same key, with expiry = now + ttl.
  On an unreachable store the promise is rejected; the client takes only a string as value
  and throws on anything else.
\<close>

definition redis_setEx :: "nat \<Rightarrow> string \<Rightarrow> nat \<Rightarrow> json \<Rightarrow> redis \<Rightarrow> js_error + redis" where
  "redis_setEx now key seconds v r =
     (case v of
        JString s \<Rightarrow>
          if \<not> reachable r then Inl StoreError
          else Inr (r\<lparr>entries := (entries r)(key \<mapsto> (s, now + seconds))\<rparr>)
      | _ \<Rightarrow> Inl TypeError)"

subsection \<open>The generate endpoint\<close>

text \<open>
  What \<open>axios.post\<close> to the Bedrock service settles to: resolved with the response data
  (a 2xx status), rejected with \<open>error.response\<close> (status and data), or rejected without
  a response (no answer from the service).
\<close>

datatype axios = Resolved json | RejectedWithResponse nat json | Rejected

text \<open>
  The surroundings of the handler: the MD5 hex digest, and the Bedrock service, which
  answers the n-th request posted to it after some seconds.
\<close>

record services =
  md5hex :: "string \<Rightarrow> string"
  bedrock :: "nat \<Rightarrow> json \<Rightarrow> nat \<times> axios"

text \<open>
  The state the handler works on: the store, the time in seconds, and the bodies posted
  to the Bedrock service so far.
\<close>

record world =
  store :: redis
  clock :: nat
  posts :: "json list"

text \<open>
  What the handler does to its request: a response with a status and the JSON object sent,
  or an exception thrown outside the \<open>try\<close> block, which leaves the handler uncaught.
\<close>

datatype reply = Reply nat "(string \<times> json) list" | Uncaught js_error

definition getCacheKey :: "services \<Rightarrow> string \<Rightarrow> string" where
  "getCacheKey env prompt = ''prompt:'' @ md5hex env prompt"

text \<open>The \<open>catch\<close> branch for an error that carries no response.\<close>

definition failed :: reply where
  "failed = Reply 500 [(''error'', JString ''Failed to generate response'')]"

text \<open>
  The handler from "Call Bedrock service" on. Reading \<open>response\<close> of a null body throws
  inside the \<open>try\<close>; of any other non-object it is \<open>undefined\<close>, and
  \<open>res.json\<close> leaves an undefined property out.
\<close>

definition callBedrock :: "services \<Rightarrow> string \<Rightarrow> json \<Rightarrow> string \<Rightarrow> world \<Rightarrow> reply \<times> world" where
  "callBedrock env prompt useCache cacheKey w =
     (let request = JObject [(''prompt'', JString prompt)];
          (elapsed, bedrockResponse) = bedrock env (length (posts w)) request;
          w1 = w\<lparr>posts := posts w @ [request], clock := clock w + elapsed\<rparr>
      in case bedrockResponse of
           Rejected \<Rightarrow> (failed, w1)
         | RejectedWithResponse code data \<Rightarrow>
             (Reply code [(''error'', if truthy data then data
                                       else JString ''Error from Bedrock service'')], w1)
         | Resolved data \<Rightarrow>
             (case data of
                JNull \<Rightarrow> (failed, w1)
              | _ \<Rightarrow>
                  (let aiResponse = (case data of JObject kv \<Rightarrow> map_of kv ''response''
                                     | _ \<Rightarrow> None);
                       sent = Reply 200
                                ((case aiResponse of None \<Rightarrow> []
                                  | Some v \<Rightarrow> [(''response'', v)]) @
                                 [(''cached'', JBool False), (''cacheKey'', JString cacheKey)])
                   in case aiResponse of
                        None \<Rightarrow> (sent, w1)
                      | Some v \<Rightarrow>
                          if truthy useCache \<and> truthy v then
                            (case redis_setEx (clock w1) cacheKey 3600 v (store w1) of
                               Inl err \<Rightarrow> (failed, w1)
                             | Inr store' \<Rightarrow> (sent, w1\<lparr>store := store'\<rparr>))
                          else (sent, w1))))"

text \<open>
  The handler of \<open>POST /generate\<close> on a request body that is a JSON object. The
  destructuring defaults \<open>useCache\<close> to true when the property is absent. A prompt that
  is truthy but not a string makes \<open>hash.update\<close> throw in \<open>getCacheKey\<close>, before the
  \<open>try\<close>. A cached value that is the empty string is falsy and counts as a miss.
\<close>

definition useCache_of :: "(string \<times> json) list \<Rightarrow> json" where
  "useCache_of reqBody =
     (case map_of reqBody ''useCache'' of None \<Rightarrow> JBool True | Some v \<Rightarrow> v)"

definition generate :: "services \<Rightarrow> (string \<times> json) list \<Rightarrow> world \<Rightarrow> reply \<times> world" where
  "generate env reqBody w =
     (let prompt = map_of reqBody ''prompt'';
          useCache = useCache_of reqBody
      in if \<not> truthy_opt prompt then (Reply 400 [(''error'', JString ''Prompt is required'')], w)
         else case prompt of
                Some (JString p) \<Rightarrow>
                  (let cacheKey = getCacheKey env p
                   in if truthy useCache then
                        (case redis_get (clock w) cacheKey (store w) of
                           Inl err \<Rightarrow> (failed, w)
                         | Inr cachedResponse \<Rightarrow>
                             (case cachedResponse of
                                None \<Rightarrow> callBedrock env p useCache cacheKey w
                              | Some c \<Rightarrow>
                                  if c \<noteq> [] then
                                    (Reply 200 [(''response'', JString c),
                                                (''cached'', JBool True),
                                                (''cacheKey'', JString cacheKey)], w)
                                  else callBedrock env p useCache cacheKey w))
                      else callBedrock env p useCache cacheKey w)
              | _ \<Rightarrow> (Uncaught TypeError, w))"

section \<open>Concrete scenarios\<close>

text \<open>
  The scenarios of the specification's test list, on which the definitions are run:
  descriptors A (unavailable), B (structured messages) and C (legacy), and library
  behaviours for them. \<open>ascii_lower\<close> lowers ASCII letters, which is what
  \<open>strings.ToLower\<close> does on these names.
\<close>

definition ascii_lower :: "string \<Rightarrow> string" where
  "ascii_lower s =
     map (\<lambda>c. if (65::nat) \<le> of_char c \<and> of_char c \<le> (90::nat)
              then char_of (of_char c + (32::nat)) else c) s"

definition exA :: ModelInfo where
  "exA = \<lparr>ID = ''a'', Name = ''Alpha'', Available = False, MessageAPI = True\<rparr>"

definition exB :: ModelInfo where
  "exB = \<lparr>ID = ''b'', Name = ''Beta'', Available = True, MessageAPI = True\<rparr>"

definition exC :: ModelInfo where
  "exC = \<lparr>ID = ''c'', Name = ''Gamma'', Available = True, MessageAPI = False\<rparr>"

definition ex_bc :: BedrockClient where
  "ex_bc = \<lparr>availableModels = [exA, exB, exC], client = []\<rparr>"

text \<open>B answers with a body that is not JSON, C with a completion, A is refused.\<close>

definition ex_lib :: sdk where
  "ex_lib = \<lparr>ToLower = ascii_lower, Marshal = (\<lambda>j. Inr ''{}''),
     InvokeModel = (\<lambda>i b. if i = ''b'' then Inr ''<html>'' else if i = ''c'' then Inr ''ok''
                           else Inl ''AccessDenied''),
     Unmarshal = (\<lambda>s. if s = ''ok'' then Inr [(''completion'', JString ''Hello!'')]
                        else Inl ''invalid character'')\<rparr>"

text \<open>Every remote call is refused.\<close>

definition ex_lib_down :: sdk where
  "ex_lib_down = \<lparr>ToLower = ascii_lower, Marshal = (\<lambda>j. Inr ''{}''),
     InvokeModel = (\<lambda>i b. Inl ''AccessDenied''),
     Unmarshal = (\<lambda>s. Inl ''invalid character'')\<rparr>"

text \<open>Every model answers with one content block whose text is empty.\<close>

definition ex_lib_blank :: sdk where
  "ex_lib_blank = \<lparr>ToLower = ascii_lower, Marshal = (\<lambda>j. Inr ''{}''),
     InvokeModel = (\<lambda>i b. Inr ''blank''),
     Unmarshal = (\<lambda>s. Inr [(''content'', JArray [JObject [(''type'', JString ''text''),
                                                             (''text'', JString [])]])])\<rparr>"

text \<open>Every model answers with a completion that is the empty string.\<close>

definition ex_lib_empty :: sdk where
  "ex_lib_empty = \<lparr>ToLower = ascii_lower, Marshal = (\<lambda>j. Inr ''{}''),
     InvokeModel = (\<lambda>i b. Inr ''empty''),
     Unmarshal = (\<lambda>s. Inr [(''completion'', JString [])])\<rparr>"

definition ex_generate :: GenerateRequest where
  "ex_generate = \<lparr>Prompt = ''hi'', MaxTokens = 0, Temperature = 0, Model = []\<rparr>"

text \<open>
  For the cache service: the prompt "hi" with its MD5 digest (no other prompt is used;
  the digest function is a placeholder elsewhere), a Bedrock service that answers after
  two seconds, and one whose first answer has an empty text.
\<close>

definition ex_key :: string where
  "ex_key = ''prompt:49f68a5c8493ec2c0bf489821c21fc3b''"

definition ex_answer :: "string \<Rightarrow> json" where
  "ex_answer s = JObject [(''response'', JString s), (''model_used'', JString ''Gamma'')]"

definition ex_md5hex :: "string \<Rightarrow> string" where
  "ex_md5hex s = (if s = ''hi'' then ''49f68a5c8493ec2c0bf489821c21fc3b''
                  else ''00000000000000000000000000000000'')"

definition ex_env :: services where
  "ex_env = \<lparr>md5hex = ex_md5hex, bedrock = (\<lambda>n request. (2, Resolved (ex_answer ''Hello!'')))\<rparr>"

definition ex_env_blank :: services where
  "ex_env_blank = \<lparr>md5hex = ex_md5hex,
     bedrock = (\<lambda>n request. if n = 0 then (2, Resolved (ex_answer []))
                              else (2, Resolved (ex_answer ''Hello!'')))\<rparr>"

definition ex_world :: "bool \<Rightarrow> nat \<Rightarrow> world" where
  "ex_world up now = \<lparr>store = \<lparr>entries = Map.empty, reachable = up\<rparr>, clock = now, posts = []\<rparr>"

definition ex_req :: "(string \<times> json) list" where
  "ex_req = [(''prompt'', JString ''hi'')]"

definition ex_req_nocache :: "(string \<times> json) list" where
  "ex_req_nocache = [(''prompt'', JString ''hi''), (''useCache'', JBool False)]"

definition ex_req_params :: "(string \<times> json) list" where
  "ex_req_params =
     [(''prompt'', JString ''hi''), (''max_tokens'', JNumber 50), (''temperature'', JNumber 1),
      (''model'', JString ''haiku'')]"

text \<open>The world after the first request for "hi" has been answered and cached.\<close>

definition ex_cached :: world where
  "ex_cached = \<lparr>store = \<lparr>entries = [ex_key \<mapsto> (''Hello!'', 3602)], reachable = True\<rparr>,
                 clock = 2, posts = [JObject ex_req]\<rparr>"

text \<open>The store after the entry for "hi" has been rewritten at second 1000.\<close>

definition ex_rewritten :: redis where
  "ex_rewritten = \<lparr>entries = [ex_key \<mapsto> (''Bye'', 4600)], reachable = True\<rparr>"

section \<open>Facts for running the scenarios\<close>

lemma ex_lower: "ascii_lower [] = []"
  by (simp add: ascii_lower_def)

lemma ex_lowered:
  "ascii_lower ''GAMMA'' = ''gamma''" "ascii_lower ''Gamma'' = ''gamma''"
  "ascii_lower ''Beta'' = ''beta''" "ascii_lower ''Alpha'' = ''alpha''"
  "ascii_lower ''a'' = ''a''" "ascii_lower ''b'' = ''b''" "ascii_lower ''c'' = ''c''"
  by code_simp+

lemmas ex_defs = ex_bc_def exA_def exB_def exC_def ex_lib_def ex_lib_down_def
  ex_generate_def ex_lower

lemmas ex_js_defs = ex_key_def ex_answer_def ex_md5hex_def ex_env_def
  ex_world_def ex_req_def ex_cached_def

lemmas run_defs = generate_def callBedrock_def getCacheKey_def useCache_of_def truthy_opt_def
  redis_get_def redis_setEx_def failed_def Let_def

section \<open>Candidate selection\<close>

lemma addFallback_distinct:
  "distinct (map ID models) \<Longrightarrow>
   addFallback models acc =
     acc @ filter (\<lambda>m. Available m \<and> ID m \<notin> ID ` set acc) models"
proof (induction models arbitrary: acc)
  case Nil
  then show ?case by simp
next
  case (Cons m ms)
  have notin: "ID m \<notin> ID ` set ms" using Cons.prems by auto
  have same: "filter (\<lambda>x. Available x \<and> ID x \<notin> ID ` set (acc @ [m])) ms
            = filter (\<lambda>x. Available x \<and> ID x \<notin> ID ` set acc) ms"
    using notin by (intro filter_cong) (auto simp: image_iff)
  have d: "distinct (map ID ms)" using Cons.prems by simp
  show ?case
  proof (cases "Available m \<and> ID m \<notin> ID ` set acc")
    case True
    then have "addFallback (m # ms) acc = addFallback ms (acc @ [m])"
      by (auto simp: list_ex_iff image_iff)
    also have "\<dots> = (acc @ [m]) @ filter (\<lambda>x. Available x \<and> ID x \<notin> ID ` set (acc @ [m])) ms"
      by (rule Cons.IH [OF d])
    finally show ?thesis using True same by simp
  next
    case False
    then have "addFallback (m # ms) acc = addFallback ms acc"
      by (auto simp: list_ex_iff image_iff)
    then show ?thesis using False Cons.IH [OF d, of acc] by auto
  qed
qed

lemma findPreferred_find:
  "findPreferred lib p models =
     (case find (matchesPreferred lib p) models of None \<Rightarrow> [] | Some m \<Rightarrow> [m])"
  by (induction models) auto

lemma spec_matches_eq: "spec_matches lib p = matchesPreferred lib p"
  by (auto simp: spec_matches_def matchesPreferred_def fun_eq_iff)

lemma find_Some_mem: "find P xs = Some x \<Longrightarrow> x \<in> set xs \<and> P x"
  by (induction xs) (auto split: if_splits)

lemma distinct_ID_eq:
  "distinct (map ID models) \<Longrightarrow> p \<in> set models \<Longrightarrow> m \<in> set models \<Longrightarrow>
   ID m = ID p \<longleftrightarrow> m = p"
  by (auto simp: distinct_map inj_on_def)

lemma addFallback_none:
  "\<forall>m\<in>set ms. \<not> Available m \<Longrightarrow> addFallback ms acc = acc"
  by (induction ms arbitrary: acc) auto

lemma findPreferred_none:
  "\<forall>m\<in>set ms. \<not> Available m \<Longrightarrow> findPreferred lib p ms = []"
  by (induction ms) (auto simp: matchesPreferred_def)

lemma modelsToTry_none:
  "\<forall>m\<in>set ms. \<not> Available m \<Longrightarrow> modelsToTry lib ms p = []"
  by (simp add: modelsToTry_def addFallback_none findPreferred_none)

text \<open>
  Claim C1. For a catalogue whose ids are unique (the data model's invariant, which the
  catalogue built by NewBedrockClient has), the candidate list GenerateText builds is the
  one the specification describes: when preferredModel is non-empty, the first available
  descriptor, in catalogue order, whose id or display name contains preferredModel as a
  case-insensitive substring, followed by every other available descriptor in catalogue
  order; when preferredModel is empty, the available descriptors in catalogue order.
\<close>

theorem C1_candidate_order:
  assumes "distinct (map ID models)"
  shows "modelsToTry lib models preferredModel = spec_candidates lib models preferredModel"
proof (cases "preferredModel = [] \<or> find (matchesPreferred lib preferredModel) models = None")
  case True
  then have "modelsToTry lib models preferredModel = addFallback models []"
    by (auto simp: modelsToTry_def findPreferred_find)
  moreover have "spec_candidates lib models preferredModel = filter Available models"
    using True by (auto simp: spec_candidates_def spec_matches_eq)
  ultimately show ?thesis using addFallback_distinct [OF assms, of "[]"] by simp
next
  case False
  then obtain p where ne: "preferredModel \<noteq> []"
    and f: "find (matchesPreferred lib preferredModel) models = Some p" by auto
  have pin: "p \<in> set models" using find_Some_mem [OF f] by simp
  have "modelsToTry lib models preferredModel = addFallback models [p]"
    using ne f by (simp add: modelsToTry_def findPreferred_find)
  also have "\<dots> = [p] @ filter (\<lambda>m. Available m \<and> ID m \<notin> ID ` set [p]) models"
    by (rule addFallback_distinct [OF assms])
  also have "filter (\<lambda>m. Available m \<and> ID m \<notin> ID ` set [p]) models
           = filter (\<lambda>m. Available m \<and> m \<noteq> p) models"
    using distinct_ID_eq [OF assms pin] by (intro filter_cong) auto
  finally show ?thesis using ne f by (simp add: spec_candidates_def spec_matches_eq)
qed

text \<open>
  The specification's example: with descriptors A (unavailable), B and C (available) and
  no preference the order is B, C; with the preference "GAMMA", which matches only C's
  display name, it is C, B.
\<close>

theorem C1_candidate_order_witness:
  "distinct (map ID [exA, exB, exC]) \<and>
   modelsToTry ex_lib [exA, exB, exC] [] = [exB, exC] \<and>
   modelsToTry ex_lib [exA, exB, exC] ''GAMMA'' = [exC, exB]"
proof -
  have d: "distinct (map ID [exA, exB, exC])"
    by (simp add: exA_def exB_def exC_def)
  have s1: "spec_candidates ex_lib [exA, exB, exC] [] = [exB, exC]"
    by (simp add: spec_candidates_def exA_def exB_def exC_def)
  have s2: "spec_candidates ex_lib [exA, exB, exC] ''GAMMA'' = [exC, exB]"
    by (simp add: spec_candidates_def spec_matches_def exA_def exB_def exC_def ex_lib_def
        ex_lowered)
  show ?thesis
    using d C1_candidate_order [OF d, of ex_lib "[]"] C1_candidate_order [OF d, of ex_lib "''GAMMA''"]
      s1 s2 by simp
qed

section \<open>The fallback loop\<close>

lemma tryModel_fst_indep:
  "fst (tryModel lib p mt t m bc) = fst (tryModel lib p mt t m bc')"
  by (simp add: tryModel_def Let_def split: sum.splits option.splits)

lemma tryModel_availableModels:
  "availableModels (snd (tryModel lib p mt t m bc)) = availableModels bc"
  by (simp add: tryModel_def Let_def split: sum.splits option.splits)

lemma tryModels_availableModels:
  "availableModels (snd (tryModels lib p mt t ms lastErr bc)) = availableModels bc"
proof (induction ms arbitrary: lastErr bc)
  case Nil
  then show ?case by simp
next
  case (Cons m ms)
  obtain r bc' where tm: "tryModel lib p mt t m bc = (r, bc')" by (cases "tryModel lib p mt t m bc")
  have av: "availableModels bc' = availableModels bc"
    using tryModel_availableModels [of lib p mt t m bc] tm by simp
  show ?case
  proof (cases r)
    case (Inl e)
    then show ?thesis using tm Cons.IH [of "Some e" bc'] av by simp
  next
    case (Inr tx)
    then show ?thesis using tm av by simp
  qed
qed

lemma tryModels_isl_iff:
  "isl (fst (tryModels lib p mt t ms lastErr bc)) \<longleftrightarrow>
     (\<forall>m\<in>set ms. isl (fst (tryModel lib p mt t m bc)))"
proof (induction ms arbitrary: lastErr bc)
  case Nil
  then show ?case by simp
next
  case (Cons m ms)
  obtain r bc' where tm: "tryModel lib p mt t m bc = (r, bc')" by (cases "tryModel lib p mt t m bc")
  have indep: "\<And>x. fst (tryModel lib p mt t x bc') = fst (tryModel lib p mt t x bc)"
    by (rule tryModel_fst_indep)
  show ?case
  proof (cases r)
    case (Inl e)
    then show ?thesis using tm Cons.IH [of "Some e" bc'] indep by simp
  next
    case (Inr tx)
    then show ?thesis using tm by simp
  qed
qed

lemma tryModels_all_fail:
  "\<forall>m\<in>set ms. isl (fst (tryModel lib p mt t m bc)) \<Longrightarrow> ms \<noteq> [] \<Longrightarrow>
   \<exists>e. fst (tryModel lib p mt t (last ms) bc) = Inl e \<and>
       fst (tryModels lib p mt t ms lastErr bc)
         = Inl (''all available models failed. Last error: '' @ e)"
proof (induction ms arbitrary: lastErr bc)
  case Nil
  then show ?case by simp
next
  case (Cons m ms)
  obtain r bc' where tm: "tryModel lib p mt t m bc = (r, bc')" by (cases "tryModel lib p mt t m bc")
  have indep: "\<And>x. fst (tryModel lib p mt t x bc') = fst (tryModel lib p mt t x bc)"
    by (rule tryModel_fst_indep)
  from Cons.prems tm obtain e where e: "r = Inl e" by (cases r) auto
  show ?case
  proof (cases "ms = []")
    case True
    then show ?thesis using tm e by simp
  next
    case False
    have "\<forall>x\<in>set ms. isl (fst (tryModel lib p mt t x bc'))"
      using Cons.prems indep by simp
    from Cons.IH [OF this False, of "Some e"] show ?thesis
      using tm e False indep by simp
  qed
qed

lemma tryModels_winner:
  "fst (tryModels lib p mt t ms lastErr bc) = Inr (answer, name) \<Longrightarrow>
   \<exists>pre m post. ms = pre @ m # post \<and>
      (\<forall>x\<in>set pre. isl (fst (tryModel lib p mt t x bc))) \<and>
      fst (tryModel lib p mt t m bc) = Inr answer \<and> name = Name m"
proof (induction ms arbitrary: lastErr bc)
  case Nil
  then show ?case by simp
next
  case (Cons m ms)
  obtain r bc' where tm: "tryModel lib p mt t m bc = (r, bc')" by (cases "tryModel lib p mt t m bc")
  have indep: "\<And>x. fst (tryModel lib p mt t x bc') = fst (tryModel lib p mt t x bc)"
    by (rule tryModel_fst_indep)
  show ?case
  proof (cases r)
    case (Inl e)
    then have "fst (tryModels lib p mt t ms (Some e) bc') = Inr (answer, name)"
      using Cons.prems tm by simp
    from Cons.IH [OF this] obtain pre w post where
      w: "ms = pre @ w # post" "\<forall>x\<in>set pre. isl (fst (tryModel lib p mt t x bc))"
        "fst (tryModel lib p mt t w bc) = Inr answer" "name = Name w"
      using indep by auto
    have "m # ms = (m # pre) @ w # post" using w(1) by simp
    moreover have "\<forall>x\<in>set (m # pre). isl (fst (tryModel lib p mt t x bc))"
      using w(2) tm Inl by simp
    ultimately show ?thesis using w(3) w(4) by blast
  next
    case (Inr tx)
    then have "m # ms = [] @ m # ms \<and> (\<forall>x\<in>set []. isl (fst (tryModel lib p mt t x bc))) \<and>
        fst (tryModel lib p mt t m bc) = Inr answer \<and> name = Name m"
      using tm Cons.prems by auto
    then show ?thesis by blast
  qed
qed

lemma ex_all_fail:
  "GenerateText ex_lib_down ''hi'' [] 0 0 ex_bc
     = (Inl ''all available models failed. Last error: AccessDenied'',
        ex_bc\<lparr>client := [(''b'', ''{}''), (''c'', ''{}'')]\<rparr>)"
  by (simp add: GenerateText_def modelsToTry_def tryModel_def extractText_def ex_defs)

lemma ex_partial_failure:
  "GenerateText ex_lib ''hi'' [] 0 0 ex_bc
     = (Inr (''Hello!'', ''Gamma''), ex_bc\<lparr>client := [(''b'', ''{}''), (''c'', ''{}'')]\<rparr>)"
  by (simp add: GenerateText_def modelsToTry_def tryModel_def extractText_def ex_defs)

text \<open>
  Claim C4, as stated, fails in its last part: GenerateText can return an empty success.
  With C preferred and answering with a completion that is the empty string, the result
  is a success whose text is empty, under C's display name, and B is never tried.
\<close>

theorem C4_empty_success_counterexample:
  "GenerateText ex_lib_empty ''hi'' ''GAMMA'' 0 0 ex_bc
     = (Inr ([], ''Gamma''), ex_bc\<lparr>client := [(''c'', ''{}'')]\<rparr>)"
  by (simp add: GenerateText_def modelsToTry_def matchesPreferred_def tryModel_def
      extractText_def ex_defs ex_lib_empty_def ex_lowered)

text \<open>
  Claim C4, amended. GenerateText returns an error exactly when the candidate list is
  empty or every candidate fails, a candidate failing on a marshalling, transport,
  decoding or response-format error. With an empty list the error is "no available models
  found" and the client is returned as it was, so no remote call has been made. When
  every candidate fails, the error carries the error of the last candidate. A success is
  never returned without a winning candidate: it is the text extracted from the answer of
  the first candidate that does not fail, under that candidate's display name, and that
  text is returned whatever it is, the empty string included. (Whether a candidate fails
  does not depend on the client's state, so it is read off the client the call starts
  with.)
\<close>

theorem C4_terminal_failure:
  "(let cands = modelsToTry lib (availableModels bc) preferredModel;
        mt = (if maxTokens = 0 then 2000 else maxTokens);
        tp = (if temperature = 0 then 7 / 10 else temperature);
        fails = (\<lambda>m. isl (fst (tryModel lib prompt mt tp m bc)));
        result = GenerateText lib prompt preferredModel maxTokens temperature bc
    in (isl (fst result) \<longleftrightarrow> cands = [] \<or> (\<forall>m\<in>set cands. fails m)) \<and>
       (cands = [] \<longrightarrow> result = (Inl ''no available models found'', bc)) \<and>
       (cands \<noteq> [] \<and> (\<forall>m\<in>set cands. fails m) \<longrightarrow>
          (\<exists>e. fst (tryModel lib prompt mt tp (last cands) bc) = Inl e \<and>
               fst result = Inl (''all available models failed. Last error: '' @ e))) \<and>
       (\<forall>answer name. fst result = Inr (answer, name) \<longrightarrow>
          (\<exists>pre m post. cands = pre @ m # post \<and> (\<forall>x\<in>set pre. fails x) \<and>
              fst (tryModel lib prompt mt tp m bc) = Inr answer \<and> name = Name m)) \<and>
       (\<forall>pre m post answer.
          cands = pre @ m # post \<and> (\<forall>x\<in>set pre. fails x) \<and>
          fst (tryModel lib prompt mt tp m bc) = Inr answer \<longrightarrow>
            fst result = Inr (answer, Name m)))"
proof -
  define cands where "cands = modelsToTry lib (availableModels bc) preferredModel"
  define mt where "mt = (if maxTokens = 0 then 2000 else maxTokens)"
  define tp where "tp = (if temperature = 0 then 7 / 10 else temperature)"
  define result where "result = GenerateText lib prompt preferredModel maxTokens temperature bc"
  have empty: "cands = [] \<Longrightarrow> result = (Inl ''no available models found'', bc)"
    by (simp add: result_def GenerateText_def cands_def)
  have nonempty: "cands \<noteq> [] \<Longrightarrow> result = tryModels lib prompt mt tp cands None bc"
    by (simp add: result_def GenerateText_def cands_def mt_def tp_def Let_def)
  have c1: "isl (fst result) \<longleftrightarrow>
      cands = [] \<or> (\<forall>m\<in>set cands. isl (fst (tryModel lib prompt mt tp m bc)))"
  proof (cases "cands = []")
    case True
    then show ?thesis using empty by simp
  next
    case False
    then show ?thesis
      using nonempty tryModels_isl_iff [of lib prompt mt tp cands None bc] by simp
  qed
  have c3: "cands \<noteq> [] \<and> (\<forall>m\<in>set cands. isl (fst (tryModel lib prompt mt tp m bc))) \<longrightarrow>
          (\<exists>e. fst (tryModel lib prompt mt tp (last cands) bc) = Inl e \<and>
               fst result = Inl (''all available models failed. Last error: '' @ e))"
    using nonempty tryModels_all_fail [of cands lib prompt mt tp bc None] by auto
  have c4: "\<forall>answer name. fst result = Inr (answer, name) \<longrightarrow>
          (\<exists>pre m post. cands = pre @ m # post \<and>
              (\<forall>x\<in>set pre. isl (fst (tryModel lib prompt mt tp x bc))) \<and>
              fst (tryModel lib prompt mt tp m bc) = Inr answer \<and> name = Name m)"
  proof (cases "cands = []")
    case True
    then show ?thesis using empty by simp
  next
    case False
    then show ?thesis
      using nonempty tryModels_winner [of lib prompt mt tp cands None bc] by auto
  qed
  have c5: "\<forall>pre m post answer.
          cands = pre @ m # post \<and> (\<forall>x\<in>set pre. isl (fst (tryModel lib prompt mt tp x bc))) \<and>
          fst (tryModel lib prompt mt tp m bc) = Inr answer \<longrightarrow>
            fst result = Inr (answer, Name m)"
  proof (intro allI impI)
    fix pre m post answer
    assume h: "cands = pre @ m # post \<and> (\<forall>x\<in>set pre. isl (fst (tryModel lib prompt mt tp x bc))) \<and>
          fst (tryModel lib prompt mt tp m bc) = Inr answer"
    then have ne: "cands \<noteq> []" by auto
    have "\<not> (\<forall>x\<in>set cands. isl (fst (tryModel lib prompt mt tp x bc)))"
      using h by auto
    then have "\<not> isl (fst result)" using c1 ne by simp
    then obtain a n where an: "fst result = Inr (a, n)" by (cases "fst result") auto
    from c4 an obtain pre' m' post' where
      w: "cands = pre' @ m' # post'" "\<forall>x\<in>set pre'. isl (fst (tryModel lib prompt mt tp x bc))"
         "fst (tryModel lib prompt mt tp m' bc) = Inr a" "n = Name m'" by blast
    have "pre' = pre \<and> m' = m"
    proof -
      have nf: "\<not> isl (fst (tryModel lib prompt mt tp m bc))" "\<not> isl (fst (tryModel lib prompt mt tp m' bc))"
        using h w(3) by simp_all
      have eq: "pre @ m # post = pre' @ m' # post'" using h w(1) by simp
      have "length pre = length pre'"
      proof (rule ccontr)
        assume "length pre \<noteq> length pre'"
        then consider "length pre < length pre'" | "length pre' < length pre" by linarith
        then show False
        proof cases
          case 1
          then have "(pre' @ m' # post') ! length pre = pre' ! length pre"
            by (simp add: nth_append)
          moreover have "(pre @ m # post) ! length pre = m" by simp
          ultimately have "m \<in> set pre'" using eq 1 by (metis nth_mem)
          then show False using w(2) nf(1) by blast
        next
          case 2
          then have "(pre @ m # post) ! length pre' = pre ! length pre'"
            by (simp add: nth_append)
          moreover have "(pre' @ m' # post') ! length pre' = m'" by simp
          ultimately have "m' \<in> set pre" using eq 2 by (metis nth_mem)
          then show False using h nf(2) by blast
        qed
      qed
      then show ?thesis using eq by simp
    qed
    then show "fst result = Inr (answer, Name m)" using an w h by simp
  qed
  show ?thesis
    unfolding Let_def
    using c1 empty c3 c4 c5
    unfolding cands_def mt_def tp_def result_def by blast
qed

text \<open>
  With every remote call refused, both candidates B and C fail and the error carries C's;
  with only A in the catalogue, nothing is called; with B answering malformed JSON and C
  a completion, B is passed over and the result is C's.
\<close>

theorem C4_terminal_failure_witness:
  "modelsToTry ex_lib_down (availableModels ex_bc) [] = [exB, exC] \<and>
   fst (tryModel ex_lib_down ''hi'' 2000 (7 / 10) exB ex_bc) = Inl ''AccessDenied'' \<and>
   fst (tryModel ex_lib_down ''hi'' 2000 (7 / 10) exC ex_bc) = Inl ''AccessDenied'' \<and>
   fst (GenerateText ex_lib_down ''hi'' [] 0 0 ex_bc)
     = Inl ''all available models failed. Last error: AccessDenied'' \<and>
   modelsToTry ex_lib (availableModels (ex_bc\<lparr>availableModels := [exA]\<rparr>)) [] = [] \<and>
   GenerateText ex_lib ''hi'' [] 0 0 (ex_bc\<lparr>availableModels := [exA]\<rparr>)
     = (Inl ''no available models found'', ex_bc\<lparr>availableModels := [exA]\<rparr>) \<and>
   modelsToTry ex_lib (availableModels ex_bc) [] = [exB] @ exC # [] \<and>
   isl (fst (tryModel ex_lib ''hi'' 2000 (7 / 10) exB ex_bc)) \<and>
   fst (tryModel ex_lib ''hi'' 2000 (7 / 10) exC ex_bc) = Inr ''Hello!'' \<and>
   fst (GenerateText ex_lib ''hi'' [] 0 0 ex_bc) = Inr (''Hello!'', ''Gamma'')"
proof -
  have c: "modelsToTry ex_lib_down (availableModels ex_bc) [] = [exB, exC]"
    "modelsToTry ex_lib (availableModels (ex_bc\<lparr>availableModels := [exA]\<rparr>)) [] = []"
    "modelsToTry ex_lib (availableModels ex_bc) [] = [exB] @ exC # []"
    by (simp_all add: modelsToTry_def ex_defs)
  have f: "fst (tryModel ex_lib_down ''hi'' 2000 (7 / 10) exB ex_bc) = Inl ''AccessDenied''"
    "fst (tryModel ex_lib_down ''hi'' 2000 (7 / 10) exC ex_bc) = Inl ''AccessDenied''"
    "isl (fst (tryModel ex_lib ''hi'' 2000 (7 / 10) exB ex_bc))"
    "fst (tryModel ex_lib ''hi'' 2000 (7 / 10) exC ex_bc) = Inr ''Hello!''"
    by (simp_all add: tryModel_def extractText_def ex_defs)
  have down: "fst (GenerateText ex_lib_down ''hi'' [] 0 0 ex_bc)
     = Inl ''all available models failed. Last error: AccessDenied''"
    using C4_terminal_failure [of ex_lib_down ex_bc "[]" 0 0 "''hi''"] c(1) f(1) f(2)
    by (simp add: Let_def)
  have none: "GenerateText ex_lib ''hi'' [] 0 0 (ex_bc\<lparr>availableModels := [exA]\<rparr>)
     = (Inl ''no available models found'', ex_bc\<lparr>availableModels := [exA]\<rparr>)"
    using C4_terminal_failure [of ex_lib "ex_bc\<lparr>availableModels := [exA]\<rparr>" "[]" 0 0 "''hi''"]
      c(2)
    by (simp add: Let_def)
  have won: "\<forall>pre m post answer.
        modelsToTry ex_lib (availableModels ex_bc) [] = pre @ m # post \<and>
        (\<forall>x\<in>set pre. isl (fst (tryModel ex_lib ''hi'' (if (0::int) = 0 then 2000 else 0)
                                       (if (0::real) = 0 then 7 / 10 else 0) x ex_bc))) \<and>
        fst (tryModel ex_lib ''hi'' (if (0::int) = 0 then 2000 else 0)
               (if (0::real) = 0 then 7 / 10 else 0) m ex_bc) = Inr answer \<longrightarrow>
        fst (GenerateText ex_lib ''hi'' [] 0 0 ex_bc) = Inr (answer, Name m)"
    using C4_terminal_failure [of ex_lib ex_bc "[]" 0 0 "''hi''"]
    unfolding Let_def by (elim conjE) assumption
  have passed: "\<forall>x\<in>set [exB]. isl (fst (tryModel ex_lib ''hi'' (if (0::int) = 0 then 2000 else 0)
                                       (if (0::real) = 0 then 7 / 10 else 0) x ex_bc))"
    using f(3) by simp
  have answered: "fst (tryModel ex_lib ''hi'' (if (0::int) = 0 then 2000 else 0)
               (if (0::real) = 0 then 7 / 10 else 0) exC ex_bc) = Inr ''Hello!''"
    using f(4) by simp
  from won [rule_format, of "[exB]" exC "[]" "''Hello!''"] c(3) passed answered
  have "fst (GenerateText ex_lib ''hi'' [] 0 0 ex_bc) = Inr (''Hello!'', Name exC)"
    by blast
  then have win: "fst (GenerateText ex_lib ''hi'' [] 0 0 ex_bc) = Inr (''Hello!'', ''Gamma'')"
    by (simp add: exC_def)
  show ?thesis using c f down none win by blast
qed

section \<open>Availability flags\<close>

lemma GenerateText_availableModels:
  "availableModels (snd (GenerateText lib p pref mt t bc)) = availableModels bc"
  by (simp add: GenerateText_def Let_def tryModels_availableModels)

lemma generateHandler_availableModels:
  "availableModels (snd (generateHandler lib decoded bc)) = availableModels bc"
proof (cases decoded)
  case None
  then show ?thesis by (simp add: generateHandler_def)
next
  case (Some req)
  obtain r bc' where
    g: "GenerateText lib (Prompt req) (Model req) (MaxTokens req) (Temperature req) bc = (r, bc')"
    by (cases "GenerateText lib (Prompt req) (Model req) (MaxTokens req) (Temperature req) bc")
  have "availableModels bc' = availableModels bc"
    using GenerateText_availableModels
      [of lib "Prompt req" "Model req" "MaxTokens req" "Temperature req" bc] g
    by simp
  then show ?thesis using Some g
    by (cases r) (auto simp: generateHandler_def split: prod.splits)
qed

lemma probeEach_flags:
  "map Available (fst (probeEach lib ms calls))
     = map (\<lambda>m. \<not> isl (InvokeModel lib (ID m) (probeBytes lib m))) ms"
proof (induction ms arbitrary: calls)
  case Nil
  then show ?case by simp
next
  case (Cons m ms)
  show ?case
    using Cons.IH [of "calls @ [(ID m, probeBytes lib m)]"]
    by (simp add: Let_def case_prod_beta split: sum.splits)
qed

lemma probeEach_all_fail:
  "\<forall>i b. isl (InvokeModel lib i b) \<Longrightarrow> \<forall>m\<in>set (fst (probeEach lib ms calls)). \<not> Available m"
proof (induction ms arbitrary: calls)
  case Nil
  then show ?case by simp
next
  case (Cons m ms)
  have "isl (InvokeModel lib (ID m) (probeBytes lib m))" using Cons.prems by simp
  then show ?case
    using Cons.IH [OF Cons.prems, of "calls @ [(ID m, probeBytes lib m)]"]
    by (auto simp: Let_def case_prod_beta split: sum.splits)
qed

text \<open>
  Claim C7. GenerateText, and the handler around it, return the client with every
  descriptor's available flag as it was before the call, whatever the candidates answer.
  A candidate that fails has its error recorded as the last error and the loop goes on
  with the next candidate, the flags untouched. The flags are written by
  TestModelAvailability, which sets each to whether the probe call succeeded.
\<close>

theorem C7_flags_untouched:
  "availableModels (snd (GenerateText lib prompt preferredModel maxTokens temperature bc))
     = availableModels bc \<and>
   availableModels (snd (generateHandler lib decoded bc)) = availableModels bc \<and>
   (\<forall>e. fst (tryModel lib prompt maxTokens temperature m bc) = Inl e \<longrightarrow>
        tryModels lib prompt maxTokens temperature (m # rest) lastError bc
          = tryModels lib prompt maxTokens temperature rest (Some e)
              (snd (tryModel lib prompt maxTokens temperature m bc)) \<and>
        availableModels (snd (tryModel lib prompt maxTokens temperature m bc))
          = availableModels bc) \<and>
   map Available (availableModels (TestModelAvailability lib bc))
     = map (\<lambda>m. \<not> isl (InvokeModel lib (ID m) (probeBytes lib m))) (availableModels bc)"
proof -
  have step: "\<forall>e. fst (tryModel lib prompt maxTokens temperature m bc) = Inl e \<longrightarrow>
        tryModels lib prompt maxTokens temperature (m # rest) lastError bc
          = tryModels lib prompt maxTokens temperature rest (Some e)
              (snd (tryModel lib prompt maxTokens temperature m bc))"
    by (cases "tryModel lib prompt maxTokens temperature m bc") auto
  have probe: "map Available (availableModels (TestModelAvailability lib bc))
     = map (\<lambda>m. \<not> isl (InvokeModel lib (ID m) (probeBytes lib m))) (availableModels bc)"
    using probeEach_flags [of lib "availableModels bc" "client bc"]
    by (simp add: TestModelAvailability_def case_prod_beta)
  show ?thesis
    using step probe GenerateText_availableModels generateHandler_availableModels
      tryModel_availableModels by simp
qed

text \<open>
  The specification's partial failure: B's call returns malformed JSON and C's succeeds;
  the result is C's, and the flags are still (false, true, true). A probe against a
  provider that refuses every call clears all three.
\<close>

theorem C7_flags_untouched_witness:
  "fst (tryModel ex_lib ''hi'' 2000 (7 / 10) exB ex_bc)
     = Inl ''error parsing response: invalid character'' \<and>
   fst (GenerateText ex_lib ''hi'' [] 0 0 ex_bc) = Inr (''Hello!'', ''Gamma'') \<and>
   map Available (availableModels (snd (GenerateText ex_lib ''hi'' [] 0 0 ex_bc)))
     = [False, True, True] \<and>
   map Available (availableModels (TestModelAvailability ex_lib_down ex_bc))
     = [False, False, False]"
proof -
  have e0: "fst (tryModel ex_lib ''hi'' 2000 (7 / 10) exB ex_bc)
     = Inl ''error parsing response: invalid character''"
    by (simp add: tryModel_def ex_defs)
  have e4: "map Available (availableModels ex_bc) = [False, True, True]"
    by (simp add: ex_defs)
  have e5: "map (\<lambda>m. \<not> isl (InvokeModel ex_lib_down (ID m) (probeBytes ex_lib_down m)))
              (availableModels ex_bc) = [False, False, False]"
    by (simp add: ex_defs)
  show ?thesis
    using C7_flags_untouched [of ex_lib "''hi''" "[]" 0 0 ex_bc None exB "[exC]" None]
      C7_flags_untouched [of ex_lib_down "''hi''" "[]" 0 0 ex_bc None exB "[exC]" None]
      e0 e4 e5 ex_partial_failure
    by simp
qed

section \<open>Response parsing\<close>

lemma extractText_message:
  "extractText True response = Some answer \<longleftrightarrow>
     (\<exists>firstFields rest.
         map_of response ''content'' = Some (JArray (JObject firstFields # rest)) \<and>
         map_of firstFields ''text'' = Some (JString answer))"
  by (auto simp: extractText_def split: option.splits json.splits list.splits)

lemma extractText_legacy:
  "extractText False response = Some answer \<longleftrightarrow>
     map_of response ''completion'' = Some (JString answer)"
  by (auto simp: extractText_def split: option.splits json.splits)

text \<open>
  Claim C8, as stated, fails on a blank field: a structured-message response whose first
  content block has the empty string as text is not a format-parse failure. The first
  candidate B wins with the empty text and C is never tried.
\<close>

theorem C8_blank_text_counterexample:
  "GenerateText ex_lib_blank ''hi'' [] 0 0 ex_bc
     = (Inr ([], ''Beta''), ex_bc\<lparr>client := [(''b'', ''{}'')]\<rparr>)"
  by (simp add: GenerateText_def modelsToTry_def tryModel_def extractText_def ex_defs
      ex_lib_blank_def)

text \<open>
  Claim C8, amended. Parsing is variant-specific. For a structured-message descriptor the
  text is extracted exactly when \<open>content\<close> is a non-empty array whose first element is
  an object with a string \<open>text\<close>, and that string, empty or not, is the result; for a
  legacy descriptor exactly when \<open>completion\<close> is a string. Once the call has returned
  a body that decodes, the candidate succeeds with the extracted text, and otherwise
  fails with "unexpected response format" and the next candidate is tried.
\<close>

theorem C8_response_parsing:
  "(extractText True response = Some answer \<longleftrightarrow>
      (\<exists>firstFields others.
          map_of response ''content'' = Some (JArray (JObject firstFields # others)) \<and>
          map_of firstFields ''text'' = Some (JString answer))) \<and>
   (extractText False response = Some answer \<longleftrightarrow>
      map_of response ''completion'' = Some (JString answer)) \<and>
   (Marshal lib (requestBody m prompt maxTokens temperature) = Inr bodyBytes \<and>
    InvokeModel lib (ID m) bodyBytes = Inr respBody \<and>
    Unmarshal lib respBody = Inr response \<longrightarrow>
      fst (tryModel lib prompt maxTokens temperature m bc)
        = (case extractText (MessageAPI m) response of
             Some t \<Rightarrow> Inr t
           | None \<Rightarrow> Inl (''unexpected response format from model '' @ Name m)) \<and>
      (extractText (MessageAPI m) response = None \<longrightarrow>
         tryModels lib prompt maxTokens temperature (m # rest) lastError bc
           = tryModels lib prompt maxTokens temperature rest
               (Some (''unexpected response format from model '' @ Name m))
               (bc\<lparr>client := client bc @ [(ID m, bodyBytes)]\<rparr>)))"
proof -
  have exec: "Marshal lib (requestBody m prompt maxTokens temperature) = Inr bodyBytes \<and>
    InvokeModel lib (ID m) bodyBytes = Inr respBody \<and>
    Unmarshal lib respBody = Inr response \<longrightarrow>
      tryModel lib prompt maxTokens temperature m bc
        = (case extractText (MessageAPI m) response of
             Some t \<Rightarrow> Inr t
           | None \<Rightarrow> Inl (''unexpected response format from model '' @ Name m),
           bc\<lparr>client := client bc @ [(ID m, bodyBytes)]\<rparr>)"
    by (simp add: tryModel_def Let_def split: option.splits)
  show ?thesis
    using exec extractText_message [of response answer] extractText_legacy [of response answer]
    by auto
qed

text \<open>
  C's completion is extracted by the legacy variant; the same body read as a structured
  message has no content and is a format failure.
\<close>

theorem C8_response_parsing_witness:
  "Marshal ex_lib (requestBody exC ''hi'' 2000 (7 / 10)) = Inr ''{}'' \<and>
   InvokeModel ex_lib (ID exC) ''{}'' = Inr ''ok'' \<and>
   Unmarshal ex_lib ''ok'' = Inr [(''completion'', JString ''Hello!'')] \<and>
   extractText False [(''completion'', JString ''Hello!'')] = Some ''Hello!'' \<and>
   fst (tryModel ex_lib ''hi'' 2000 (7 / 10) exC ex_bc) = Inr ''Hello!'' \<and>
   extractText True [(''completion'', JString ''Hello!'')] = None"
proof -
  have h: "Marshal ex_lib (requestBody exC ''hi'' 2000 (7 / 10)) = Inr ''{}''"
    "InvokeModel ex_lib (ID exC) ''{}'' = Inr ''ok''"
    "Unmarshal ex_lib ''ok'' = Inr [(''completion'', JString ''Hello!'')]"
    "MessageAPI exC = False"
    by (simp_all add: ex_defs)
  have c: "map_of [(''completion'', JString ''Hello!'')] ''completion'' = Some (JString ''Hello!'')"
    "map_of [(''completion'', JString ''Hello!'')] ''content'' = None"
    by simp_all
  show ?thesis
    using C8_response_parsing [of "[(''completion'', JString ''Hello!'')]" "''Hello!''" ex_lib exC
        "''hi''" 2000 "7 / 10" "''{}''" "''ok''" ex_bc "[]" None] h c
    by (auto simp: extractText_def)
qed

section \<open>Start-up\<close>

text \<open>
  Claim C9, as stated, fails on the enhanced service: when the client cannot be
  constructed, \<open>main\<close> ends the process with a fatal log line instead of a warning, and no
  generation request is served afterwards.
\<close>

theorem C9_startup_counterexample:
  "main ex_lib (Inl ''invalid configuration'')
     = Exited ''Failed to initialize Bedrock client: unable to load SDK config: invalid configuration''"
  by (simp add: main_def NewBedrockClient_def)

text \<open>
  Claim C9, amended. When the client cannot be constructed at start-up, the enhanced
  service exits with the fatal line "Failed to initialize Bedrock client: ...", while the
  basic service logs a warning and goes on to serve. When the client is constructed but
  the provider refuses every call (as with unusable credentials), the enhanced service
  starts with no model available, and every generation request with a prompt is answered
  500 "Error generating response: no available models found", without a remote call: the
  client is returned as it was.
\<close>

theorem C9_startup:
  "main lib (Inl err)
     = Exited (''Failed to initialize Bedrock client: unable to load SDK config: '' @ err) \<and>
   main_basic (Inl err)
     = Serving [''Warning: Bedrock client initialization failed: unable to load SDK config: '' @ err,
                ''Service will run but Bedrock calls will fail''] None \<and>
   ((\<forall>i b. isl (InvokeModel lib i b)) \<longrightarrow>
      (\<exists>bc. main lib (Inr ()) = Serving [] bc \<and>
            (\<forall>m\<in>set (availableModels bc). \<not> Available m) \<and>
            (\<forall>req. Prompt req \<noteq> [] \<longrightarrow>
               generateHandler lib (Some req) bc
                 = (http_Error ''Error generating response: no available models found'' 500, bc))))"
proof -
  have a: "main lib (Inl err)
     = Exited (''Failed to initialize Bedrock client: unable to load SDK config: '' @ err)"
    by (simp add: main_def NewBedrockClient_def)
  have b: "main_basic (Inl err)
     = Serving [''Warning: Bedrock client initialization failed: unable to load SDK config: '' @ err,
                ''Service will run but Bedrock calls will fail''] None"
    by (simp add: main_basic_def NewBedrockClient_basic_def)
  have c: "(\<exists>bc. main lib (Inr ()) = Serving [] bc \<and>
            (\<forall>m\<in>set (availableModels bc). \<not> Available m) \<and>
            (\<forall>req. Prompt req \<noteq> [] \<longrightarrow>
               generateHandler lib (Some req) bc
                 = (http_Error ''Error generating response: no available models found'' 500, bc)))"
    if down: "\<forall>i b. isl (InvokeModel lib i b)"
  proof -
    define bc where "bc = TestModelAvailability lib \<lparr>availableModels = catalogue, client = []\<rparr>"
    have m: "main lib (Inr ()) = Serving [] bc"
      by (simp add: main_def NewBedrockClient_def bc_def)
    have un: "\<forall>m\<in>set (availableModels bc). \<not> Available m"
      using probeEach_all_fail [OF down, of catalogue "[]"]
      by (simp add: bc_def TestModelAvailability_def case_prod_beta)
    have "GenerateText lib p pref mt t bc = (Inl ''no available models found'', bc)" for p pref mt t
      using modelsToTry_none [OF un] by (simp add: GenerateText_def)
    then have "\<forall>req. Prompt req \<noteq> [] \<longrightarrow>
               generateHandler lib (Some req) bc
                 = (http_Error ''Error generating response: no available models found'' 500, bc)"
      by (simp add: generateHandler_def)
    then show ?thesis using m un by blast
  qed
  show ?thesis using a b c by blast
qed

theorem C9_startup_witness:
  "(\<forall>i b. isl (InvokeModel ex_lib_down i b)) \<and>
   Prompt ex_generate \<noteq> [] \<and>
   (\<exists>bc. main ex_lib_down (Inr ()) = Serving [] bc \<and>
         generateHandler ex_lib_down (Some ex_generate) bc
           = (http_Error ''Error generating response: no available models found'' 500, bc))"
proof -
  have d: "\<forall>i b. isl (InvokeModel ex_lib_down i b)" by (simp add: ex_defs)
  have p: "Prompt ex_generate \<noteq> []" by (simp add: ex_defs)
  show ?thesis
    using C9_startup [of ex_lib_down "[]"] d p by fastforce
qed

section \<open>The generate endpoint of the cache service\<close>

lemma generate_string:
  "map_of b ''prompt'' = Some (JString p) \<Longrightarrow> p \<noteq> [] \<Longrightarrow>
   generate env b w =
     (if truthy (useCache_of b) then
        (case redis_get (clock w) (getCacheKey env p) (store w) of
           Inl err \<Rightarrow> (failed, w)
         | Inr None \<Rightarrow> callBedrock env p (useCache_of b) (getCacheKey env p) w
         | Inr (Some c) \<Rightarrow>
             if c \<noteq> [] then
               (Reply 200 [(''response'', JString c), (''cached'', JBool True),
                           (''cacheKey'', JString (getCacheKey env p))], w)
             else callBedrock env p (useCache_of b) (getCacheKey env p) w)
      else callBedrock env p (useCache_of b) (getCacheKey env p) w)"
  by (simp add: generate_def truthy_opt_def Let_def split: sum.splits option.splits)

lemma callBedrock_posts:
  "posts (snd (callBedrock env p u k w)) = posts w @ [JObject [(''prompt'', JString p)]]"
  by (simp add: callBedrock_def Let_def case_prod_beta redis_setEx_def
      split: axios.splits json.splits option.splits sum.splits)

lemma callBedrock_sent:
  "callBedrock env p u k w = (Reply 200 sent, w1) \<Longrightarrow>
   map_of sent ''response'' = Some (JString t) \<Longrightarrow> t \<noteq> [] \<Longrightarrow> truthy u \<Longrightarrow>
   reachable (store w1) \<and> entries (store w1) k = Some (t, clock w1 + 3600)"
  by (auto simp: callBedrock_def Let_def case_prod_beta redis_setEx_def failed_def
      split: axios.splits json.splits option.splits sum.splits if_splits)

lemma callBedrock_outcome:
  "(\<exists>d data. bedrock env (length (posts w)) (JObject [(''prompt'', JString p)]) = (d, Resolved data) \<and>
       data \<noteq> JNull \<and>
       fst (callBedrock env p u k w)
         = Reply 200 ((case (case data of JObject kv \<Rightarrow> map_of kv ''response'' | _ \<Rightarrow> None) of
                         None \<Rightarrow> [] | Some v \<Rightarrow> [(''response'', v)]) @
                      [(''cached'', JBool False), (''cacheKey'', JString k)])) \<or>
   (\<exists>code v. fst (callBedrock env p u k w) = Reply code [(''error'', v)])"
proof -
  obtain d a where b: "bedrock env (length (posts w)) (JObject [(''prompt'', JString p)]) = (d, a)"
    by (cases "bedrock env (length (posts w)) (JObject [(''prompt'', JString p)])")
  show ?thesis
  proof (cases a)
    case (Resolved data)
    show ?thesis
    proof (cases "data = JNull")
      case True
      then show ?thesis using b Resolved by (simp add: callBedrock_def failed_def)
    next
      case False
      then show ?thesis using b Resolved
        by (cases data)
          (auto simp: callBedrock_def Let_def failed_def split: option.splits sum.splits)
    qed
  next
    case (RejectedWithResponse code data)
    then show ?thesis using b by (simp add: callBedrock_def)
  next
    case Rejected
    then show ?thesis using b by (simp add: callBedrock_def failed_def)
  qed
qed

text \<open>
  A request that is answered 200 with a non-empty text has left a live entry for its
  key that holds this text; when the answer was not served from the cache, the entry
  expires 3600 seconds after the write.
\<close>

lemma generate_entry:
  assumes "map_of b1 ''prompt'' = Some (JString p)" and "p \<noteq> []" and "truthy (useCache_of b1)"
    and "generate env b1 w = (Reply 200 sent, w1)"
    and "map_of sent ''response'' = Some (JString t)" and "t \<noteq> []"
  shows "reachable (store w1) \<and>
     (\<exists>e. entries (store w1) (getCacheKey env p) = Some (t, e) \<and> clock w1 < e \<and>
          (map_of sent ''cached'' = Some (JBool False) \<longrightarrow> e = clock w1 + 3600))"
proof -
  let ?k = "getCacheKey env p"
  have g1: "generate env b1 w =
     (case redis_get (clock w) ?k (store w) of
           Inl err \<Rightarrow> (failed, w)
         | Inr None \<Rightarrow> callBedrock env p (useCache_of b1) ?k w
         | Inr (Some c) \<Rightarrow>
             if c \<noteq> [] then
               (Reply 200 [(''response'', JString c), (''cached'', JBool True),
                           (''cacheKey'', JString ?k)], w)
             else callBedrock env p (useCache_of b1) ?k w)"
    using generate_string [OF assms(1) assms(2), of env w] assms(3) by simp
  show ?thesis
  proof (cases "redis_get (clock w) ?k (store w)")
    case (Inl err)
    then show ?thesis using g1 assms(4) by (simp add: failed_def)
  next
    case (Inr cachedResponse)
    show ?thesis
    proof (cases "\<exists>c. cachedResponse = Some c \<and> c \<noteq> []")
      case True
      then obtain c where c: "cachedResponse = Some c" "c \<noteq> []" by blast
      then have "(Reply 200 sent, w1)
          = (Reply 200 [(''response'', JString c), (''cached'', JBool True),
                        (''cacheKey'', JString ?k)], w)"
        using g1 Inr assms(4) by simp
      then have *: "sent = [(''response'', JString c), (''cached'', JBool True),
                            (''cacheKey'', JString ?k)]" "w1 = w"
        by simp_all
      then have "c = t" using assms(5) by simp
      then show ?thesis using Inr c *
        by (auto simp: redis_get_def split: if_splits option.splits)
    next
      case False
      then have cb: "callBedrock env p (useCache_of b1) ?k w = (Reply 200 sent, w1)"
        using g1 Inr assms(4) by (cases cachedResponse) auto
      from callBedrock_sent [OF cb assms(5) assms(6) assms(3)] show ?thesis by simp
    qed
  qed
qed

lemma ex_first_request:
  "generate ex_env ex_req (ex_world True 0)
     = (Reply 200 [(''response'', JString ''Hello!''), (''cached'', JBool False),
                   (''cacheKey'', JString ex_key)], ex_cached)"
  by (simp add: run_defs ex_js_defs)

lemma ex_facts:
  "map_of ex_req ''prompt'' = Some (JString ''hi'')" "truthy (useCache_of ex_req)"
  "getCacheKey ex_env ''hi'' = ex_key"
  by (simp_all add: run_defs ex_js_defs)

subsection \<open>Repeated prompts\<close>

text \<open>
  Claim C2, as stated, fails when the Bedrock service answers the first call with an
  empty text: the handler caches only a non-empty response, so the second call for the
  same prompt, two seconds later and with caching enabled, misses, posts to the Bedrock
  service again and returns a different text.
\<close>

theorem C2_blank_answer_counterexample:
  "generate ex_env_blank ex_req (ex_world True 0)
     = (Reply 200 [(''response'', JString []), (''cached'', JBool False),
                   (''cacheKey'', JString ex_key)],
        (ex_world True 2)\<lparr>posts := [JObject ex_req]\<rparr>) \<and>
   generate ex_env_blank ex_req ((ex_world True 2)\<lparr>posts := [JObject ex_req]\<rparr>)
     = (Reply 200 [(''response'', JString ''Hello!''), (''cached'', JBool False),
                   (''cacheKey'', JString ex_key)],
        \<lparr>store = \<lparr>entries = [ex_key \<mapsto> (''Hello!'', 3604)], reachable = True\<rparr>,
          clock = 4, posts = [JObject ex_req, JObject ex_req]\<rparr>)"
  by (simp add: run_defs ex_js_defs ex_env_blank_def)

text \<open>
  Claim C2, amended. For a non-empty prompt and caching enabled on both calls: if the
  first call is answered 200 with a non-empty response text, then a second call for the
  same prompt, made on the state the first call left and before the entry for the
  prompt's key expires, returns the same text, marked as cached, and leaves the state as
  it was, so it posts nothing to the Bedrock service. The key is the digest of the prompt
  alone. When the first answer was not itself served from the cache, the entry expires
  3600 seconds after the first call's write.
\<close>

theorem C2_repeat_hits_cache:
  assumes "map_of b1 ''prompt'' = Some (JString p)" and "map_of b2 ''prompt'' = Some (JString p)"
    and "p \<noteq> []" and "truthy (useCache_of b1)" and "truthy (useCache_of b2)"
    and "generate env b1 w = (Reply 200 sent, w1)"
    and "map_of sent ''response'' = Some (JString t)" and "t \<noteq> []"
    and "entries (store w1) (getCacheKey env p) = Some (v, expiresAt)"
    and "clock w1 + d < expiresAt"
  shows "generate env b2 (w1\<lparr>clock := clock w1 + d\<rparr>)
           = (Reply 200 [(''response'', JString t), (''cached'', JBool True),
                         (''cacheKey'', JString (getCacheKey env p))],
              w1\<lparr>clock := clock w1 + d\<rparr>) \<and>
         (map_of sent ''cached'' = Some (JBool False) \<longrightarrow> expiresAt = clock w1 + 3600)"
proof -
  let ?k = "getCacheKey env p"
  from generate_entry [OF assms(1) assms(3) assms(4) assms(6) assms(7) assms(8)]
  obtain e where e: "entries (store w1) ?k = Some (t, e)" "clock w1 < e"
    "map_of sent ''cached'' = Some (JBool False) \<longrightarrow> e = clock w1 + 3600"
    and up: "reachable (store w1)"
    by blast
  have same: "v = t" "expiresAt = e" using e(1) assms(9) by simp_all
  have "redis_get (clock w1 + d) ?k (store w1) = Inr (Some t)"
    using e(1) up assms(10) same by (simp add: redis_get_def)
  then have "generate env b2 (w1\<lparr>clock := clock w1 + d\<rparr>)
      = (Reply 200 [(''response'', JString t), (''cached'', JBool True),
                    (''cacheKey'', JString ?k)], w1\<lparr>clock := clock w1 + d\<rparr>)"
    using generate_string [OF assms(2) assms(3), of env "w1\<lparr>clock := clock w1 + d\<rparr>"]
      assms(5) assms(8)
    by simp
  then show ?thesis using e(3) same by simp
qed

text \<open>
  The prompt "hi" is answered "Hello!" and cached at second 2, to expire at second 3602;
  ten seconds later the same request is served from the cache.
\<close>

theorem C2_repeat_hits_cache_witness:
  "generate ex_env ex_req (ex_world True 0)
     = (Reply 200 [(''response'', JString ''Hello!''), (''cached'', JBool False),
                   (''cacheKey'', JString ex_key)], ex_cached) \<and>
   entries (store ex_cached) (getCacheKey ex_env ''hi'') = Some (''Hello!'', 3602) \<and>
   clock ex_cached + 10 < 3602 \<and>
   generate ex_env ex_req (ex_cached\<lparr>clock := clock ex_cached + 10\<rparr>)
     = (Reply 200 [(''response'', JString ''Hello!''), (''cached'', JBool True),
                   (''cacheKey'', JString ex_key)],
        ex_cached\<lparr>clock := clock ex_cached + 10\<rparr>)"
proof -
  have s: "map_of [(''response'', JString ''Hello!''), (''cached'', JBool False),
                   (''cacheKey'', JString ex_key)] ''response'' = Some (JString ''Hello!'')"
    by simp
  have ne: "''hi'' \<noteq> []" "''Hello!'' \<noteq> []" by simp_all
  have e: "entries (store ex_cached) (getCacheKey ex_env ''hi'') = Some (''Hello!'', 3602)"
    by (simp add: ex_facts) (simp add: ex_js_defs)
  have d: "clock ex_cached + 10 < 3602"
    by (simp add: ex_js_defs)
  note again = C2_repeat_hits_cache [OF ex_facts(1) ex_facts(1) ne(1) ex_facts(2) ex_facts(2)
      ex_first_request s ne(2) e d, THEN conjunct1]
  show ?thesis using ex_first_request e d again [unfolded ex_facts(3)] by blast
qed

subsection \<open>An unreachable store\<close>

text \<open>
  Claim C3, as stated, fails: with the store unreachable and caching enabled (the
  default), the rejected lookup is caught by the handler's single \<open>catch\<close>, the caller
  is answered 500 "Failed to generate response", and the Bedrock service, which would
  have answered, is never called.
\<close>

theorem C3_store_down_counterexample:
  "generate ex_env ex_req (ex_world False 0)
     = (Reply 500 [(''error'', JString ''Failed to generate response'')], ex_world False 0)"
  by (simp add: run_defs ex_js_defs)

text \<open>
  Claim C3, amended. With the store unreachable, a request for a non-empty prompt with
  caching enabled is answered 500 "Failed to generate response" and nothing is posted to
  the Bedrock service. A request with caching disabled does not touch the store: it
  posts the prompt to the Bedrock service and, when that answers with a JSON object,
  returns its response text.
\<close>

theorem C3_store_down:
  assumes "map_of reqBody ''prompt'' = Some (JString p)" and "p \<noteq> []"
    and "\<not> reachable (store w)"
  shows "(truthy (useCache_of reqBody) \<longrightarrow>
            generate env reqBody w
              = (Reply 500 [(''error'', JString ''Failed to generate response'')], w)) \<and>
         (\<not> truthy (useCache_of reqBody) \<longrightarrow>
            store (snd (generate env reqBody w)) = store w \<and>
            posts (snd (generate env reqBody w)) = posts w @ [JObject [(''prompt'', JString p)]] \<and>
            (\<forall>d kv. bedrock env (length (posts w)) (JObject [(''prompt'', JString p)])
                       = (d, Resolved (JObject kv)) \<longrightarrow>
               fst (generate env reqBody w)
                 = Reply 200 ((case map_of kv ''response'' of None \<Rightarrow> []
                               | Some v \<Rightarrow> [(''response'', v)]) @
                              [(''cached'', JBool False),
                               (''cacheKey'', JString (getCacheKey env p))])))"
proof -
  let ?k = "getCacheKey env p"
  have on: "truthy (useCache_of reqBody) \<Longrightarrow> generate env reqBody w = (failed, w)"
    using generate_string [OF assms(1) assms(2), of env w] assms(3)
    by (simp add: redis_get_def)
  have off: "\<not> truthy (useCache_of reqBody) \<Longrightarrow>
     generate env reqBody w = callBedrock env p (useCache_of reqBody) ?k w"
    using generate_string [OF assms(1) assms(2), of env w] by simp
  have st: "\<not> truthy u \<Longrightarrow> store (snd (callBedrock env p u ?k w)) = store w" for u
    by (simp add: callBedrock_def Let_def case_prod_beta
        split: axios.splits json.splits option.splits)
  have rp: "\<not> truthy u \<Longrightarrow>
      bedrock env (length (posts w)) (JObject [(''prompt'', JString p)])
        = (d, Resolved (JObject kv)) \<Longrightarrow>
      fst (callBedrock env p u ?k w)
        = Reply 200 ((case map_of kv ''response'' of None \<Rightarrow> []
                      | Some v \<Rightarrow> [(''response'', v)]) @
                     [(''cached'', JBool False), (''cacheKey'', JString ?k)])" for u d kv
    by (simp add: callBedrock_def Let_def split: option.splits)
  show ?thesis using on off st rp callBedrock_posts [of env p "useCache_of reqBody" ?k w]
    by (simp add: failed_def)
qed

text \<open>
  With the store down, the default request fails, and the request with
  \<open>useCache: false\<close> is answered by the Bedrock service.
\<close>

theorem C3_store_down_witness:
  "\<not> reachable (store (ex_world False 0)) \<and>
   fst (generate ex_env ex_req (ex_world False 0))
     = Reply 500 [(''error'', JString ''Failed to generate response'')] \<and>
   posts (snd (generate ex_env ex_req (ex_world False 0))) = [] \<and>
   fst (generate ex_env ex_req_nocache (ex_world False 0))
     = Reply 200 [(''response'', JString ''Hello!''), (''cached'', JBool False),
                  (''cacheKey'', JString ex_key)] \<and>
   posts (snd (generate ex_env ex_req_nocache (ex_world False 0))) = [JObject ex_req]"
proof -
  have down: "\<not> reachable (store (ex_world False 0))" by (simp add: ex_js_defs)
  have nc: "map_of ex_req_nocache ''prompt'' = Some (JString ''hi'')"
    "\<not> truthy (useCache_of ex_req_nocache)"
    by (simp_all add: useCache_of_def ex_req_nocache_def)
  have ne: "''hi'' \<noteq> []" by simp
  have b: "bedrock ex_env (length (posts (ex_world False 0))) (JObject [(''prompt'', JString ''hi'')])
             = (2, Resolved (JObject [(''response'', JString ''Hello!''),
                                      (''model_used'', JString ''Gamma'')]))"
    by (simp add: ex_js_defs)
  have p: "posts (ex_world False 0) = []" "JObject ex_req = JObject [(''prompt'', JString ''hi'')]"
    by (simp_all add: ex_js_defs)
  show ?thesis
    using C3_store_down [OF ex_facts(1) ne down, of ex_env]
      C3_store_down [OF nc(1) ne down, of ex_env] down b p ex_facts nc
    by simp
qed

subsection \<open>Expiry\<close>

text \<open>
  Claim C6. An entry written with TTL T is not returned by a get once T seconds have
  passed since the write; a write to the same key before expiry replaces the value and
  sets the expiry to the time of that write plus its TTL, until which the new value is
  returned. The handler writes with a TTL of 3600 seconds: after a request answered from
  the Bedrock service with a non-empty text, the entry for the prompt's key expires 3600
  seconds after the write, and the same request made 3600 seconds or more later is not
  served from the cache but posted to the Bedrock service again.
\<close>

theorem C6_ttl:
  "(redis_setEx now key T (JString v) r = Inr r' \<longrightarrow>
      (\<forall>later. now + T \<le> later \<longrightarrow> redis_get later key r' = Inr None) \<and>
      (\<forall>t2 T2 v2 r''. t2 < now + T \<and> redis_setEx t2 key T2 (JString v2) r' = Inr r'' \<longrightarrow>
          entries r'' key = Some (v2, t2 + T2) \<and>
          (\<forall>later. later < t2 + T2 \<longrightarrow> redis_get later key r'' = Inr (Some v2)) \<and>
          (\<forall>later. t2 + T2 \<le> later \<longrightarrow> redis_get later key r'' = Inr None))) \<and>
   (map_of b ''prompt'' = Some (JString p) \<and> p \<noteq> [] \<and> truthy (useCache_of b) \<and>
    generate env b w = (Reply 200 sent, w1) \<and>
    map_of sent ''cached'' = Some (JBool False) \<and>
    map_of sent ''response'' = Some (JString t) \<and> t \<noteq> [] \<longrightarrow>
      entries (store w1) (getCacheKey env p) = Some (t, clock w1 + 3600) \<and>
      (\<forall>d. 3600 \<le> d \<longrightarrow>
         posts (snd (generate env b (w1\<lparr>clock := clock w1 + d\<rparr>)))
           = posts w1 @ [JObject [(''prompt'', JString p)]]))"
proof -
  have store_part: "redis_setEx now key T (JString v) r = Inr r' \<longrightarrow>
      (\<forall>later. now + T \<le> later \<longrightarrow> redis_get later key r' = Inr None) \<and>
      (\<forall>t2 T2 v2 r''. t2 < now + T \<and> redis_setEx t2 key T2 (JString v2) r' = Inr r'' \<longrightarrow>
          entries r'' key = Some (v2, t2 + T2) \<and>
          (\<forall>later. later < t2 + T2 \<longrightarrow> redis_get later key r'' = Inr (Some v2)) \<and>
          (\<forall>later. t2 + T2 \<le> later \<longrightarrow> redis_get later key r'' = Inr None))"
    by (auto simp: redis_setEx_def redis_get_def split: if_splits)
  have handler_part: "entries (store w1) (getCacheKey env p) = Some (t, clock w1 + 3600) \<and>
      (\<forall>d. 3600 \<le> d \<longrightarrow>
         posts (snd (generate env b (w1\<lparr>clock := clock w1 + d\<rparr>)))
           = posts w1 @ [JObject [(''prompt'', JString p)]])"
    if h: "map_of b ''prompt'' = Some (JString p)" "p \<noteq> []" "truthy (useCache_of b)"
      "generate env b w = (Reply 200 sent, w1)"
      "map_of sent ''cached'' = Some (JBool False)"
      "map_of sent ''response'' = Some (JString t)" "t \<noteq> []"
  proof -
    from generate_entry [OF h(1) h(2) h(3) h(4) h(6) h(7)] h(5)
    have up: "reachable (store w1)"
      and e: "entries (store w1) (getCacheKey env p) = Some (t, clock w1 + 3600)" by auto
    have "posts (snd (generate env b (w1\<lparr>clock := clock w1 + d\<rparr>)))
           = posts w1 @ [JObject [(''prompt'', JString p)]]" if d: "3600 \<le> d" for d
    proof -
      have "redis_get (clock w1 + d) (getCacheKey env p) (store w1) = Inr None"
        using up e d by (simp add: redis_get_def)
      then have "generate env b (w1\<lparr>clock := clock w1 + d\<rparr>)
          = callBedrock env p (useCache_of b) (getCacheKey env p) (w1\<lparr>clock := clock w1 + d\<rparr>)"
        using generate_string [OF h(1) h(2), of env "w1\<lparr>clock := clock w1 + d\<rparr>"] h(3) by simp
      then show ?thesis by (simp add: callBedrock_posts)
    qed
    then show ?thesis using e by blast
  qed
  show ?thesis using store_part handler_part by blast
qed

text \<open>
  The entry for "hi", written at second 2, is gone at second 3602, when the request is
  posted to the Bedrock service a second time; rewritten at second 1000 with "Bye", it
  holds "Bye" until second 4600.
\<close>

theorem C6_ttl_witness:
  "redis_setEx 2 ex_key 3600 (JString ''Hello!'') (store (ex_world True 0)) = Inr (store ex_cached) \<and>
   redis_get 3602 ex_key (store ex_cached) = Inr None \<and>
   redis_setEx 1000 ex_key 3600 (JString ''Bye'') (store ex_cached) = Inr ex_rewritten \<and>
   redis_get 4599 ex_key ex_rewritten = Inr (Some ''Bye'') \<and>
   redis_get 4600 ex_key ex_rewritten = Inr None \<and>
   entries (store ex_cached) ex_key = Some (''Hello!'', 3602) \<and>
   posts (snd (generate ex_env ex_req (ex_cached\<lparr>clock := clock ex_cached + 3600\<rparr>)))
     = [JObject ex_req, JObject ex_req]"
proof -
  have w: "redis_setEx 2 ex_key 3600 (JString ''Hello!'') (store (ex_world True 0))
             = Inr (store ex_cached)"
    by (simp add: redis_setEx_def ex_js_defs)
  have s: "map_of [(''response'', JString ''Hello!''), (''cached'', JBool False),
                   (''cacheKey'', JString ex_key)] ''response'' = Some (JString ''Hello!'')"
    "map_of [(''response'', JString ''Hello!''), (''cached'', JBool False),
             (''cacheKey'', JString ex_key)] ''cached'' = Some (JBool False)"
    by simp_all
  have ne: "''hi'' \<noteq> []" "''Hello!'' \<noteq> []" by simp_all
  have p: "posts ex_cached = [JObject ex_req]" "clock ex_cached = 2"
    "JObject [(''prompt'', JString ''hi'')] = JObject ex_req"
    by (simp_all add: ex_js_defs)
  have store_part:
     "(\<forall>later. 2 + 3600 \<le> later \<longrightarrow> redis_get later ex_key (store ex_cached) = Inr None) \<and>
      (\<forall>t2 T2 v2 r''. t2 < 2 + 3600 \<and>
          redis_setEx t2 ex_key T2 (JString v2) (store ex_cached) = Inr r'' \<longrightarrow>
          entries r'' ex_key = Some (v2, t2 + T2) \<and>
          (\<forall>later. later < t2 + T2 \<longrightarrow> redis_get later ex_key r'' = Inr (Some v2)) \<and>
          (\<forall>later. t2 + T2 \<le> later \<longrightarrow> redis_get later ex_key r'' = Inr None))"
    and handler_part:
     "entries (store ex_cached) (getCacheKey ex_env ''hi'')
        = Some (''Hello!'', clock ex_cached + 3600) \<and>
      (\<forall>d. 3600 \<le> d \<longrightarrow>
         posts (snd (generate ex_env ex_req (ex_cached\<lparr>clock := clock ex_cached + d\<rparr>)))
           = posts ex_cached @ [JObject [(''prompt'', JString ''hi'')]])"
    using C6_ttl [of 2 ex_key 3600 "''Hello!''" "store (ex_world True 0)" "store ex_cached"
        ex_req "''hi''" ex_env "ex_world True 0"
        "[(''response'', JString ''Hello!''), (''cached'', JBool False), (''cacheKey'', JString ex_key)]"
        ex_cached "''Hello!''"]
      w s ne ex_facts(1) ex_facts(2) ex_first_request
    by simp_all
  have gone: "redis_get 3602 ex_key (store ex_cached) = Inr None"
    using store_part by simp
  have again: "posts (snd (generate ex_env ex_req (ex_cached\<lparr>clock := clock ex_cached + 3600\<rparr>)))
     = [JObject ex_req, JObject ex_req]"
    using handler_part p(1) p(3) by simp
  have entry: "entries (store ex_cached) ex_key = Some (''Hello!'', 3602)"
    using handler_part p(2) ex_facts(3) by simp
  have over: "redis_get 4599 ex_key r'' = Inr (Some ''Bye'') \<and> redis_get 4600 ex_key r'' = Inr None"
    if r: "redis_setEx 1000 ex_key 3600 (JString ''Bye'') (store ex_cached) = Inr r''" for r''
  proof -
    have "(1000::nat) < 2 + 3600 \<and>
          redis_setEx 1000 ex_key 3600 (JString ''Bye'') (store ex_cached) = Inr r''"
      using r by simp
    with store_part
    have "(\<forall>later. later < (1000::nat) + 3600 \<longrightarrow> redis_get later ex_key r'' = Inr (Some ''Bye'')) \<and>
          (\<forall>later. (1000::nat) + 3600 \<le> later \<longrightarrow> redis_get later ex_key r'' = Inr None)"
      by blast
    then show ?thesis by simp
  qed
  have rw: "redis_setEx 1000 ex_key 3600 (JString ''Bye'') (store ex_cached) = Inr ex_rewritten"
    by (simp add: redis_setEx_def ex_js_defs ex_rewritten_def)
  show ?thesis using w gone over [OF rw] rw entry again by blast
qed

subsection \<open>Request fields the layer ignores\<close>

text \<open>
  Claim C10. The generate endpoint reads only the \<open>prompt\<close> and \<open>useCache\<close> properties
  of the request body: two bodies that agree on these get the same response (and with it
  the same cache key) and leave the same state (the same store and the same posts to the
  Bedrock service), whatever their \<open>max_tokens\<close>, \<open>temperature\<close> or \<open>model\<close>. What is
  posted to the Bedrock service, if anything, is the object holding the prompt alone.
\<close>

theorem C10_only_prompt_and_useCache:
  assumes "map_of b1 ''prompt'' = map_of b2 ''prompt''"
    and "map_of b1 ''useCache'' = map_of b2 ''useCache''"
  shows "generate env b1 w = generate env b2 w \<and>
         (posts (snd (generate env b1 w)) = posts w \<or>
          (\<exists>p. map_of b1 ''prompt'' = Some (JString p) \<and>
               posts (snd (generate env b1 w)) = posts w @ [JObject [(''prompt'', JString p)]]))"
proof -
  have same: "generate env b1 w = generate env b2 w"
    using assms by (simp add: generate_def useCache_of_def)
  have sent: "posts (snd (generate env b1 w)) = posts w \<or>
          (\<exists>p. map_of b1 ''prompt'' = Some (JString p) \<and>
               posts (snd (generate env b1 w)) = posts w @ [JObject [(''prompt'', JString p)]])"
  proof (cases "\<exists>p. map_of b1 ''prompt'' = Some (JString p) \<and> p \<noteq> []")
    case True
    then obtain p where p: "map_of b1 ''prompt'' = Some (JString p)" "p \<noteq> []" by blast
    show ?thesis
      using generate_string [OF p, of env w] p(1)
        callBedrock_posts [of env p "useCache_of b1" "getCacheKey env p" w]
      by (auto split: sum.splits option.splits if_splits)
  next
    case False
    then have "snd (generate env b1 w) = w"
      by (auto simp: generate_def truthy_opt_def Let_def split: option.splits json.splits)
    then show ?thesis by simp
  qed
  show ?thesis using same sent by simp
qed

text \<open>
  The request for "hi" with max_tokens 50, temperature 1 and model "haiku" is handled as
  the bare request is.
\<close>

theorem C10_only_prompt_and_useCache_witness:
  "map_of ex_req_params ''prompt'' = map_of ex_req ''prompt'' \<and>
   map_of ex_req_params ''useCache'' = map_of ex_req ''useCache'' \<and>
   map_of ex_req_params ''max_tokens'' \<noteq> map_of ex_req ''max_tokens'' \<and>
   generate ex_env ex_req_params (ex_world True 0)
     = (Reply 200 [(''response'', JString ''Hello!''), (''cached'', JBool False),
                   (''cacheKey'', JString ex_key)], ex_cached)"
proof -
  have m: "map_of ex_req_params ''max_tokens'' \<noteq> map_of ex_req ''max_tokens''"
    by (simp add: ex_req_def ex_req_params_def)
  have a: "map_of ex_req_params ''prompt'' = map_of ex_req ''prompt''"
    "map_of ex_req_params ''useCache'' = map_of ex_req ''useCache''"
    by (simp_all add: ex_req_def ex_req_params_def)
  show ?thesis
    using C10_only_prompt_and_useCache [OF a, of ex_env "ex_world True 0"]
      a m ex_first_request
    by simp
qed

section \<open>What the caller receives\<close>

lemma GenerateText_outcome:
  "(let cands = modelsToTry lib (availableModels bc) pref;
        mt' = (if mt = 0 then 2000 else mt);
        tp = (if t = 0 then 7 / 10 else t);
        fails = (\<lambda>m. isl (fst (tryModel lib p mt' tp m bc)));
        result = fst (GenerateText lib p pref mt t bc)
    in (cands = [] \<and> result = Inl ''no available models found'') \<or>
       (cands \<noteq> [] \<and> (\<forall>m\<in>set cands. fails m) \<and>
        (\<exists>e. fst (tryModel lib p mt' tp (last cands) bc) = Inl e \<and>
             result = Inl (''all available models failed. Last error: '' @ e))) \<or>
       (\<exists>pre m post answer. cands = pre @ m # post \<and> (\<forall>x\<in>set pre. fails x) \<and>
           fst (tryModel lib p mt' tp m bc) = Inr answer \<and> result = Inr (answer, Name m)))"
proof -
  let ?c = "modelsToTry lib (availableModels bc) pref"
  let ?mt = "if mt = 0 then 2000 else mt"
  let ?tp = "if t = 0 then 7 / 10 else t"
  show ?thesis
  proof (cases "?c = []")
    case True
    then show ?thesis by (simp add: GenerateText_def)
  next
    case False
    then have g: "GenerateText lib p pref mt t bc = tryModels lib p ?mt ?tp ?c None bc"
      by (simp add: GenerateText_def Let_def)
    show ?thesis
    proof (cases "fst (tryModels lib p ?mt ?tp ?c None bc)")
      case (Inl err)
      then have af: "\<forall>m\<in>set ?c. isl (fst (tryModel lib p ?mt ?tp m bc))"
        using tryModels_isl_iff [of lib p ?mt ?tp ?c None bc] by simp
      from tryModels_all_fail [OF this False, of None] show ?thesis
        using g af False unfolding Let_def by auto
    next
      case (Inr ok)
      obtain answer name where ok: "ok = (answer, name)" by (cases ok)
      from tryModels_winner [of lib p ?mt ?tp ?c None bc answer name] Inr ok
      show ?thesis using g unfolding Let_def by auto
    qed
  qed
qed

lemma generateHandler_fst:
  "decoded = Some req \<Longrightarrow> Prompt req \<noteq> [] \<Longrightarrow>
   fst (generateHandler lib decoded bc)
     = (case fst (GenerateText lib (Prompt req) (Model req) (MaxTokens req) (Temperature req) bc) of
          Inl err \<Rightarrow> http_Error (''Error generating response: '' @ err) 500
        | Inr (response, modelUsed) \<Rightarrow>
            \<lparr>resp_status = 200,
             resp_body = Json [(''response'', JString response),
                               (''model_used'', JString modelUsed)]\<rparr>)"
  by (simp add: generateHandler_def split: prod.splits sum.splits)

lemma generateHandler_outcome:
  "(let r = fst (generateHandler lib decoded bc)
    in (decoded = None \<and> r = http_Error ''Invalid request body'' 400) \<or>
       (\<exists>req. decoded = Some req \<and> Prompt req = [] \<and>
              r = http_Error ''Prompt is required'' 400) \<or>
       (\<exists>req. decoded = Some req \<and> Prompt req \<noteq> [] \<and>
          (let cands = modelsToTry lib (availableModels bc) (Model req);
               mt = (if MaxTokens req = 0 then 2000 else MaxTokens req);
               tp = (if Temperature req = 0 then 7 / 10 else Temperature req);
               fails = (\<lambda>m. isl (fst (tryModel lib (Prompt req) mt tp m bc)))
           in (cands = [] \<and>
               r = http_Error ''Error generating response: no available models found'' 500) \<or>
              (cands \<noteq> [] \<and> (\<forall>m\<in>set cands. fails m) \<and>
               (\<exists>e. fst (tryModel lib (Prompt req) mt tp (last cands) bc) = Inl e \<and>
                    r = http_Error
                          (''Error generating response: all available models failed. Last error: '' @ e)
                          500)) \<or>
              (\<exists>pre m post answer.
                  cands = pre @ m # post \<and> (\<forall>x\<in>set pre. fails x) \<and>
                  fst (tryModel lib (Prompt req) mt tp m bc) = Inr answer \<and>
                  r = \<lparr>resp_status = 200,
                       resp_body = Json [(''response'', JString answer),
                                         (''model_used'', JString (Name m))]\<rparr>))))"
proof (cases decoded)
  case None
  then show ?thesis by (simp add: generateHandler_def)
next
  case (Some req)
  show ?thesis
  proof (cases "Prompt req = []")
    case True
    then show ?thesis using Some by (simp add: generateHandler_def)
  next
    case False
    let ?c = "modelsToTry lib (availableModels bc) (Model req)"
    let ?mt = "if MaxTokens req = 0 then 2000 else MaxTokens req"
    let ?tp = "if Temperature req = 0 then 7 / 10 else Temperature req"
    let ?attempt = "\<lambda>m. fst (tryModel lib (Prompt req) ?mt ?tp m bc)"
    let ?G = "fst (GenerateText lib (Prompt req) (Model req) (MaxTokens req) (Temperature req) bc)"
    let ?r = "fst (generateHandler lib decoded bc)"
    note h = generateHandler_fst [OF Some False, of lib bc]
    have go: "(?c = [] \<and> ?G = Inl ''no available models found'') \<or>
       (?c \<noteq> [] \<and> (\<forall>m\<in>set ?c. isl (?attempt m)) \<and>
        (\<exists>e. ?attempt (last ?c) = Inl e \<and>
             ?G = Inl (''all available models failed. Last error: '' @ e))) \<or>
       (\<exists>pre m post answer. ?c = pre @ m # post \<and> (\<forall>x\<in>set pre. isl (?attempt x)) \<and>
           ?attempt m = Inr answer \<and> ?G = Inr (answer, Name m))"
      using GenerateText_outcome
        [of lib bc "Model req" "MaxTokens req" "Temperature req" "Prompt req"]
      unfolding Let_def .
    have inner: "(?c = [] \<and>
               ?r = http_Error ''Error generating response: no available models found'' 500) \<or>
              (?c \<noteq> [] \<and> (\<forall>m\<in>set ?c. isl (?attempt m)) \<and>
               (\<exists>e. ?attempt (last ?c) = Inl e \<and>
                    ?r = http_Error
                          (''Error generating response: all available models failed. Last error: '' @ e)
                          500)) \<or>
              (\<exists>pre m post answer.
                  ?c = pre @ m # post \<and> (\<forall>x\<in>set pre. isl (?attempt x)) \<and>
                  ?attempt m = Inr answer \<and>
                  ?r = \<lparr>resp_status = 200,
                       resp_body = Json [(''response'', JString answer),
                                         (''model_used'', JString (Name m))]\<rparr>)"
      using go
    proof (elim disjE)
      assume a: "?c = [] \<and> ?G = Inl ''no available models found''"
      then have "?r = http_Error ''Error generating response: no available models found'' 500"
        using h by simp
      then show ?thesis using a by blast
    next
      assume b: "?c \<noteq> [] \<and> (\<forall>m\<in>set ?c. isl (?attempt m)) \<and>
        (\<exists>e. ?attempt (last ?c) = Inl e \<and>
             ?G = Inl (''all available models failed. Last error: '' @ e))"
      then obtain e where e: "?attempt (last ?c) = Inl e"
        "?G = Inl (''all available models failed. Last error: '' @ e)" by blast
      have "?r = http_Error
                  (''Error generating response: all available models failed. Last error: '' @ e)
                  500"
        using h e(2) by simp
      then show ?thesis using b e(1) by blast
    next
      assume "\<exists>pre m post answer. ?c = pre @ m # post \<and> (\<forall>x\<in>set pre. isl (?attempt x)) \<and>
           ?attempt m = Inr answer \<and> ?G = Inr (answer, Name m)"
      then obtain pre m post answer where w: "?c = pre @ m # post"
        "\<forall>x\<in>set pre. isl (?attempt x)" "?attempt m = Inr answer" "?G = Inr (answer, Name m)"
        by blast
      have "?r = \<lparr>resp_status = 200,
                       resp_body = Json [(''response'', JString answer),
                                         (''model_used'', JString (Name m))]\<rparr>"
        using h w(4) by simp
      then show ?thesis using w(1) w(2) w(3) by blast
    qed
    have "\<exists>q. decoded = Some q \<and> Prompt q \<noteq> [] \<and>
          (let cands = modelsToTry lib (availableModels bc) (Model q);
               mt = (if MaxTokens q = 0 then 2000 else MaxTokens q);
               tp = (if Temperature q = 0 then 7 / 10 else Temperature q);
               fails = (\<lambda>m. isl (fst (tryModel lib (Prompt q) mt tp m bc)))
           in (cands = [] \<and>
               ?r = http_Error ''Error generating response: no available models found'' 500) \<or>
              (cands \<noteq> [] \<and> (\<forall>m\<in>set cands. fails m) \<and>
               (\<exists>e. fst (tryModel lib (Prompt q) mt tp (last cands) bc) = Inl e \<and>
                    ?r = http_Error
                          (''Error generating response: all available models failed. Last error: '' @ e)
                          500)) \<or>
              (\<exists>pre m post answer.
                  cands = pre @ m # post \<and> (\<forall>x\<in>set pre. fails x) \<and>
                  fst (tryModel lib (Prompt q) mt tp m bc) = Inr answer \<and>
                  ?r = \<lparr>resp_status = 200,
                       resp_body = Json [(''response'', JString answer),
                                         (''model_used'', JString (Name m))]\<rparr>))"
      unfolding Let_def using Some False inner by (intro exI [of _ req] conjI) assumption+
    then show ?thesis unfolding Let_def by (intro disjI2)
  qed
qed

lemma generate_outcome:
  "(let reply = fst (generate env reqBody w)
    in (\<not> truthy_opt (map_of reqBody ''prompt'') \<and>
        reply = Reply 400 [(''error'', JString ''Prompt is required'')]) \<or>
       (\<exists>v. map_of reqBody ''prompt'' = Some v \<and> truthy v \<and> (\<forall>p. v \<noteq> JString p) \<and>
            reply = Uncaught TypeError) \<or>
       (\<exists>p. map_of reqBody ''prompt'' = Some (JString p) \<and> p \<noteq> [] \<and>
          ((truthy (useCache_of reqBody) \<and>
            (\<exists>c. c \<noteq> [] \<and>
                 redis_get (clock w) (getCacheKey env p) (store w) = Inr (Some c) \<and>
                 reply = Reply 200 [(''response'', JString c), (''cached'', JBool True),
                                    (''cacheKey'', JString (getCacheKey env p))])) \<or>
           (\<exists>d data.
               bedrock env (length (posts w)) (JObject [(''prompt'', JString p)])
                 = (d, Resolved data) \<and>
               data \<noteq> JNull \<and>
               reply = Reply 200
                         ((case (case data of JObject kv \<Rightarrow> map_of kv ''response''
                                 | _ \<Rightarrow> None) of
                             None \<Rightarrow> [] | Some v \<Rightarrow> [(''response'', v)]) @
                          [(''cached'', JBool False),
                           (''cacheKey'', JString (getCacheKey env p))])) \<or>
           (\<exists>code v. reply = Reply code [(''error'', v)]))))"
proof (cases "\<exists>p. map_of reqBody ''prompt'' = Some (JString p) \<and> p \<noteq> []")
  case True
  then obtain p where p: "map_of reqBody ''prompt'' = Some (JString p)" "p \<noteq> []" by blast
  let ?k = "getCacheKey env p"
  let ?u = "useCache_of reqBody"
  note cb = callBedrock_outcome [of env w p ?u ?k]
  note gs = generate_string [OF p, of env w]
  have third: "(truthy ?u \<and>
            (\<exists>c. c \<noteq> [] \<and> redis_get (clock w) ?k (store w) = Inr (Some c) \<and>
                 fst (generate env reqBody w)
                   = Reply 200 [(''response'', JString c), (''cached'', JBool True),
                                (''cacheKey'', JString ?k)])) \<or>
           (\<exists>d data.
               bedrock env (length (posts w)) (JObject [(''prompt'', JString p)])
                 = (d, Resolved data) \<and>
               data \<noteq> JNull \<and>
               fst (generate env reqBody w) = Reply 200
                         ((case (case data of JObject kv \<Rightarrow> map_of kv ''response''
                                 | _ \<Rightarrow> None) of
                             None \<Rightarrow> [] | Some v \<Rightarrow> [(''response'', v)]) @
                          [(''cached'', JBool False), (''cacheKey'', JString ?k)])) \<or>
           (\<exists>code v. fst (generate env reqBody w) = Reply code [(''error'', v)])"
  proof (cases "truthy ?u")
    case False
    then have "generate env reqBody w = callBedrock env p ?u ?k w" using gs by simp
    then show ?thesis using cb by simp
  next
    case u: True
    show ?thesis
    proof (cases "redis_get (clock w) ?k (store w)")
      case (Inl err)
      then have "fst (generate env reqBody w) = failed" using gs u by simp
      then show ?thesis by (simp add: failed_def)
    next
      case (Inr cachedResponse)
      show ?thesis
      proof (cases "\<exists>c. cachedResponse = Some c \<and> c \<noteq> []")
        case True
        then obtain c where c: "cachedResponse = Some c" "c \<noteq> []" by blast
        then have "fst (generate env reqBody w)
            = Reply 200 [(''response'', JString c), (''cached'', JBool True),
                         (''cacheKey'', JString ?k)]"
          using gs u Inr by simp
        then show ?thesis using u c Inr by blast
      next
        case False
        then have "generate env reqBody w = callBedrock env p ?u ?k w"
          using gs u Inr by (cases cachedResponse) auto
        then show ?thesis using cb by simp
      qed
    qed
  qed
  show ?thesis unfolding Let_def using p third by blast
next
  case False
  then show ?thesis
    by (auto simp: generate_def truthy_opt_def Let_def split: option.splits json.splits)
qed

lemma generate_no_model_used:
  "fst (generate env reqBody w) = Reply code sent \<Longrightarrow> map_of sent ''model_used'' = None"
  using generate_outcome [of env reqBody w] unfolding Let_def
  by (elim disjE exE conjE) (auto split: option.splits)

text \<open>
  Claim C5, as stated, fails for a result that goes through the cache service: its
  response holds the response text, the cached flag and the cache key, and no model_used,
  although the Bedrock service named the model ("Gamma") in its answer.
\<close>

theorem C5_cache_reply_counterexample:
  "generate ex_env ex_req (ex_world True 0)
     = (Reply 200 [(''response'', JString ''Hello!''), (''cached'', JBool False),
                   (''cacheKey'', JString ex_key)], ex_cached) \<and>
   map_of [(''response'', JString ''Hello!''), (''cached'', JBool False),
           (''cacheKey'', JString ex_key)] ''model_used'' = None \<and>
   bedrock ex_env 0 (JObject ex_req)
     = (2, Resolved (JObject [(''response'', JString ''Hello!''),
                              (''model_used'', JString ''Gamma'')]))"
  by (simp add: run_defs ex_js_defs)

text \<open>
  Claim C5, amended. The Bedrock service's handler answers every request with exactly one
  of: 400 "Invalid request body" for a body that does not decode; 400 "Prompt is
  required" for an empty prompt; 500 "no available models found" when there is no
  candidate; 500 "all available models failed. Last error: e" when every candidate fails,
  e being the error of the last candidate and no other candidate's error appearing; or
  200 with the response text and model_used, the text being the one extracted from the
  answer of the first candidate that does not fail and model_used that candidate's
  display name. The cache service never sends model_used. For a non-empty string prompt
  it answers 200 with the cached string, cached true and the cache key (a hit, with
  caching enabled), or 200 with cached false, the cache key and, as response, whatever
  value the Bedrock service's answer holds under response, left out when the answer holds
  none (a miss), or one error object; a falsy prompt is answered 400 "Prompt is
  required", and a truthy prompt that is not a string leaves the handler with an
  uncaught TypeError.
\<close>

theorem C5_single_outcome:
  "(let r = fst (generateHandler lib decoded bc)
    in (decoded = None \<and> r = http_Error ''Invalid request body'' 400) \<or>
       (\<exists>req. decoded = Some req \<and> Prompt req = [] \<and>
              r = http_Error ''Prompt is required'' 400) \<or>
       (\<exists>req. decoded = Some req \<and> Prompt req \<noteq> [] \<and>
          (let cands = modelsToTry lib (availableModels bc) (Model req);
               mt = (if MaxTokens req = 0 then 2000 else MaxTokens req);
               tp = (if Temperature req = 0 then 7 / 10 else Temperature req);
               fails = (\<lambda>m. isl (fst (tryModel lib (Prompt req) mt tp m bc)))
           in (cands = [] \<and>
               r = http_Error ''Error generating response: no available models found'' 500) \<or>
              (cands \<noteq> [] \<and> (\<forall>m\<in>set cands. fails m) \<and>
               (\<exists>e. fst (tryModel lib (Prompt req) mt tp (last cands) bc) = Inl e \<and>
                    r = http_Error
                          (''Error generating response: all available models failed. Last error: '' @ e)
                          500)) \<or>
              (\<exists>pre m post answer.
                  cands = pre @ m # post \<and> (\<forall>x\<in>set pre. fails x) \<and>
                  fst (tryModel lib (Prompt req) mt tp m bc) = Inr answer \<and>
                  r = \<lparr>resp_status = 200,
                       resp_body = Json [(''response'', JString answer),
                                         (''model_used'', JString (Name m))]\<rparr>)))) \<and>
   (let reply = fst (generate env reqBody w)
    in (\<forall>code sent. reply = Reply code sent \<longrightarrow> map_of sent ''model_used'' = None) \<and>
       ((\<not> truthy_opt (map_of reqBody ''prompt'') \<and>
         reply = Reply 400 [(''error'', JString ''Prompt is required'')]) \<or>
        (\<exists>v. map_of reqBody ''prompt'' = Some v \<and> truthy v \<and> (\<forall>p. v \<noteq> JString p) \<and>
             reply = Uncaught TypeError) \<or>
        (\<exists>p. map_of reqBody ''prompt'' = Some (JString p) \<and> p \<noteq> [] \<and>
           ((truthy (useCache_of reqBody) \<and>
             (\<exists>c. c \<noteq> [] \<and>
                  redis_get (clock w) (getCacheKey env p) (store w) = Inr (Some c) \<and>
                  reply = Reply 200 [(''response'', JString c), (''cached'', JBool True),
                                     (''cacheKey'', JString (getCacheKey env p))])) \<or>
            (\<exists>d data.
                bedrock env (length (posts w)) (JObject [(''prompt'', JString p)])
                  = (d, Resolved data) \<and>
                data \<noteq> JNull \<and>
                reply = Reply 200
                          ((case (case data of JObject kv \<Rightarrow> map_of kv ''response''
                                  | _ \<Rightarrow> None) of
                              None \<Rightarrow> [] | Some v \<Rightarrow> [(''response'', v)]) @
                           [(''cached'', JBool False),
                            (''cacheKey'', JString (getCacheKey env p))])) \<or>
            (\<exists>code v. reply = Reply code [(''error'', v)])))))"
proof -
  have nm: "\<forall>code sent. fst (generate env reqBody w) = Reply code sent \<longrightarrow>
      map_of sent ''model_used'' = None"
    using generate_no_model_used by blast
  show ?thesis
    using generateHandler_outcome [of lib decoded bc] generate_outcome [of env reqBody w] nm
    unfolding Let_def by (intro conjI) assumption+
qed

text \<open>
  The partial failure through the handler: B fails, C wins, and the one response names C;
  the cached request is answered from the store, with no model_used.
\<close>

theorem C5_single_outcome_witness:
  "fst (generateHandler ex_lib (Some ex_generate) ex_bc)
     = \<lparr>resp_status = 200,
        resp_body = Json [(''response'', JString ''Hello!''),
                          (''model_used'', JString ''Gamma'')]\<rparr> \<and>
   modelsToTry ex_lib (availableModels ex_bc) (Model ex_generate) = [exB] @ exC # [] \<and>
   isl (fst (tryModel ex_lib (Prompt ex_generate) 2000 (7 / 10) exB ex_bc)) \<and>
   fst (tryModel ex_lib (Prompt ex_generate) 2000 (7 / 10) exC ex_bc) = Inr ''Hello!'' \<and>
   truthy (useCache_of ex_req) \<and>
   redis_get (clock ex_cached) (getCacheKey ex_env ''hi'') (store ex_cached) = Inr (Some ''Hello!'') \<and>
   fst (generate ex_env ex_req ex_cached)
     = Reply 200 [(''response'', JString ''Hello!''), (''cached'', JBool True),
                  (''cacheKey'', JString ex_key)]"
proof -
  have h: "fst (generateHandler ex_lib (Some ex_generate) ex_bc)
     = \<lparr>resp_status = 200,
        resp_body = Json [(''response'', JString ''Hello!''),
                          (''model_used'', JString ''Gamma'')]\<rparr>"
    using ex_partial_failure by (simp add: generateHandler_def ex_generate_def)
  have c: "modelsToTry ex_lib (availableModels ex_bc) (Model ex_generate) = [exB] @ exC # []"
    by (simp add: modelsToTry_def ex_defs)
  have t: "isl (fst (tryModel ex_lib (Prompt ex_generate) 2000 (7 / 10) exB ex_bc))"
    "fst (tryModel ex_lib (Prompt ex_generate) 2000 (7 / 10) exC ex_bc) = Inr ''Hello!''"
    by (simp_all add: tryModel_def extractText_def ex_defs)
  have r: "redis_get (clock ex_cached) (getCacheKey ex_env ''hi'') (store ex_cached)
             = Inr (Some ''Hello!'')"
    by (simp add: run_defs ex_js_defs)
  have g: "fst (generate ex_env ex_req ex_cached)
     = Reply 200 [(''response'', JString ''Hello!''), (''cached'', JBool True),
                  (''cacheKey'', JString ex_key)]"
    by (simp add: run_defs ex_js_defs)
  show ?thesis
    using C5_single_outcome [of ex_lib "Some ex_generate" ex_bc ex_env ex_req ex_cached]
      h c t ex_facts(2) r g
    by blast
qed

end
